theory Spec2Isabelle
  imports Complex_Main "HOL-Library.Multiset" "HOL-Library.AList"
begin

section \<open>Numbers, errors and configuration\<close>

text \<open>
  A JavaScript number is a double: \<open>NaN\<close>, an infinity, or a finite value, which is a real
  number. Comparisons are those of the language (every comparison with \<open>NaN\<close> is false);
  the sign of zero is not represented. An arithmetic operation on finite values computes
  the exact result and rounds it to a double. The rounding is a parameter \<open>d\<close> of the
  operations, a function from the exact result to the double (an infinity when the result
  is out of range); nothing is assumed of it but what a statement says.

  A field that holds a decimal string which the source reads through \<^verbatim>\<open>parseFloat\<close> (a
  price, the PLS amount of a buy) has type \<open>decimal_string\<close>: the string is held as the
  number that \<^verbatim>\<open>parseFloat\<close> returns for it. A numeric literal of the source is taken
  at its decimal value. \<^verbatim>\<open>bigint\<close> values are unbounded integers.
\<close>

datatype jsnumber = NaN | PosInf | NegInf | Num real

type_synonym decimal_string = jsnumber

fun js_ge :: "jsnumber \<Rightarrow> jsnumber \<Rightarrow> bool" where
  "js_ge NaN _ = False"
| "js_ge _ NaN = False"
| "js_ge PosInf _ = True"
| "js_ge _ NegInf = True"
| "js_ge NegInf _ = False"
| "js_ge _ PosInf = False"
| "js_ge (Num a) (Num b) = (a \<ge> b)"

fun js_le :: "jsnumber \<Rightarrow> jsnumber \<Rightarrow> bool" where
  "js_le a b = js_ge b a"

fun js_sign :: "jsnumber \<Rightarrow> int" where
  "js_sign NaN = 0"
| "js_sign PosInf = 1"
| "js_sign NegInf = - 1"
| "js_sign (Num a) = (if a > 0 then 1 else if a < 0 then - 1 else 0)"

definition js_inf :: "int \<Rightarrow> jsnumber" where
  "js_inf sg = (if sg > 0 then PosInf else if sg < 0 then NegInf else NaN)"

fun js_add :: "(real \<Rightarrow> jsnumber) \<Rightarrow> jsnumber \<Rightarrow> jsnumber \<Rightarrow> jsnumber" where
  "js_add d NaN _ = NaN"
| "js_add d _ NaN = NaN"
| "js_add d (Num a) (Num b) = d (a + b)"
| "js_add d PosInf NegInf = NaN"
| "js_add d NegInf PosInf = NaN"
| "js_add d PosInf _ = PosInf"
| "js_add d NegInf _ = NegInf"
| "js_add d _ PosInf = PosInf"
| "js_add d _ NegInf = NegInf"

fun js_sub :: "(real \<Rightarrow> jsnumber) \<Rightarrow> jsnumber \<Rightarrow> jsnumber \<Rightarrow> jsnumber" where
  "js_sub d NaN _ = NaN"
| "js_sub d _ NaN = NaN"
| "js_sub d (Num a) (Num b) = d (a - b)"
| "js_sub d PosInf PosInf = NaN"
| "js_sub d NegInf NegInf = NaN"
| "js_sub d PosInf _ = PosInf"
| "js_sub d NegInf _ = NegInf"
| "js_sub d _ PosInf = NegInf"
| "js_sub d _ NegInf = PosInf"

fun js_mul :: "(real \<Rightarrow> jsnumber) \<Rightarrow> jsnumber \<Rightarrow> jsnumber \<Rightarrow> jsnumber" where
  "js_mul d NaN _ = NaN"
| "js_mul d _ NaN = NaN"
| "js_mul d (Num a) (Num b) = d (a * b)"
| "js_mul d a b = js_inf (js_sign a * js_sign b)"

text \<open>Division: a zero divisor gives an infinity or \<open>NaN\<close>.\<close>

fun js_div :: "(real \<Rightarrow> jsnumber) \<Rightarrow> jsnumber \<Rightarrow> jsnumber \<Rightarrow> jsnumber" where
  "js_div d NaN _ = NaN"
| "js_div d _ NaN = NaN"
| "js_div d (Num a) (Num b) = (if b \<noteq> 0 then d (a / b) else js_inf (js_sign (Num a)))"
| "js_div d (Num a) _ = Num 0"
| "js_div d a (Num b) = js_inf (js_sign a * (if b < 0 then - 1 else 1))"
| "js_div d _ _ = NaN"

text \<open>Truthiness of a number (\<^verbatim>\<open>if (x)\<close>) and of a string.\<close>

definition truthy_num :: "real \<Rightarrow> bool" where
  "truthy_num x = (x \<noteq> 0)"

definition truthy_str :: "string \<Rightarrow> bool" where
  "truthy_str s = (s \<noteq> [])"

datatype exn = Error string

text \<open>
  \<^verbatim>\<open>BigInt(Math.floor(x))\<close>: the floor of a finite double is an integer; \<^verbatim>\<open>BigInt\<close> raises
  a RangeError for \<open>NaN\<close> and the infinities.
\<close>

fun BigInt_floor :: "jsnumber \<Rightarrow> exn + int" where
  "BigInt_floor (Num x) = Inr \<lfloor>x\<rfloor>"
| "BigInt_floor _ = Inl (Error ''RangeError'')"

text \<open>
  Division of two \<^verbatim>\<open>bigint\<close>s truncates toward zero. A zero divisor raises a
  RangeError in the language; the only divisor in this program is the constant 10000.
\<close>

definition bigint_div :: "int \<Rightarrow> int \<Rightarrow> int" where
  "bigint_div a b = sgn a * sgn b * (\<bar>a\<bar> div \<bar>b\<bar>)"

subsection \<open>config/sniper.ts, types/sniper.ts: SniperConfig\<close>

record SniperConfig =
  autoBuyEnabled :: bool
  buyAmountPLS :: decimal_string
  slippagePercent :: real
  gasLimitMultiplier :: real
  gasPriceGwei :: "string option"
  autoSellEnabled :: bool
  takeProfitPercent :: "real option"
  stopLossPercent :: "real option"
  minBuyEnabled :: bool
  minBuyCount :: "nat option"

definition DEFAULT_SNIPER_CONFIG :: SniperConfig where
  "DEFAULT_SNIPER_CONFIG =
     \<lparr> autoBuyEnabled = False,
       buyAmountPLS = Num 100,
       slippagePercent = 10,
       gasLimitMultiplier = 12 / 10,
       gasPriceGwei = None,
       autoSellEnabled = False,
       takeProfitPercent = Some 100,
       stopLossPercent = Some 50,
       minBuyEnabled = False,
       minBuyCount = Some 1 \<rparr>"

text \<open>
  \<^verbatim>\<open>Partial<SniperConfig>\<close>: every key may be absent (\<open>None\<close>). A key that is present
  carries a value of the field's type.
\<close>

record PartialSniperConfig =
  p_autoBuyEnabled :: "bool option"
  p_buyAmountPLS :: "decimal_string option"
  p_slippagePercent :: "real option"
  p_gasLimitMultiplier :: "real option"
  p_gasPriceGwei :: "string option"
  p_autoSellEnabled :: "bool option"
  p_takeProfitPercent :: "real option"
  p_stopLossPercent :: "real option"
  p_minBuyEnabled :: "bool option"
  p_minBuyCount :: "nat option"

definition override :: "'a \<Rightarrow> 'a option \<Rightarrow> 'a" where
  "override old new = (case new of None \<Rightarrow> old | Some v \<Rightarrow> v)"

definition override_opt :: "'a option \<Rightarrow> 'a option \<Rightarrow> 'a option" where
  "override_opt old new = (case new of None \<Rightarrow> old | Some v \<Rightarrow> Some v)"

text \<open>The object spread \<^verbatim>\<open>{ ...this.config, ...config }\<close>.\<close>

definition spread_config :: "SniperConfig \<Rightarrow> PartialSniperConfig \<Rightarrow> SniperConfig" where
  "spread_config c p =
     \<lparr> autoBuyEnabled = override (autoBuyEnabled c) (p_autoBuyEnabled p),
       buyAmountPLS = override (buyAmountPLS c) (p_buyAmountPLS p),
       slippagePercent = override (slippagePercent c) (p_slippagePercent p),
       gasLimitMultiplier = override (gasLimitMultiplier c) (p_gasLimitMultiplier p),
       gasPriceGwei = override_opt (gasPriceGwei c) (p_gasPriceGwei p),
       autoSellEnabled = override (autoSellEnabled c) (p_autoSellEnabled p),
       takeProfitPercent = override_opt (takeProfitPercent c) (p_takeProfitPercent p),
       stopLossPercent = override_opt (stopLossPercent c) (p_stopLossPercent p),
       minBuyEnabled = override (minBuyEnabled c) (p_minBuyEnabled p),
       minBuyCount = override_opt (minBuyCount c) (p_minBuyCount p) \<rparr>"

text \<open>The invariant the specification states for a configuration.\<close>

definition config_invariant :: "SniperConfig \<Rightarrow> bool" where
  "config_invariant c =
     (0 \<le> slippagePercent c \<and> slippagePercent c < 100 \<and> 1 \<le> gasLimitMultiplier c)"

section \<open>Chain, wallet and router as the program sees them\<close>

text \<open>
  The provider, the router contract and the \<^verbatim>\<open>ethers\<close> helpers are outside the
  repository. They are a record of functions that say, for each request, whether it
  raises and what it returns. The record also holds the clock (\<open>now\<close>, the value of
  \<^verbatim>\<open>Date.now()\<close>) and the rounding of the runtime's double arithmetic (\<open>to_double\<close>).
  An \<^verbatim>\<open>async\<close> function of the source is run to completion in one step; where a claim
  depends on what happens while a call is suspended, the function is cut at the
  \<^verbatim>\<open>await\<close>.
\<close>

datatype calldata =
    SwapExactETHForTokens int "string list" string int
  | SwapExactTokensForETH int int "string list" string int

record TransactionRequest =
  tx_to :: string
  tx_data :: calldata
  tx_value :: "int option"
  tx_gasLimit :: int
  tx_gasPrice :: "int option"

record TransactionResponse =
  hash :: string
  request :: TransactionRequest

record TransactionReceipt =
  receipt_status :: "nat option"

record TokenInfo =
  info_name :: string
  info_symbol :: string

record chain =
  to_double :: "real \<Rightarrow> jsnumber"
  now :: int
  parseEther :: "decimal_string \<Rightarrow> exn + int"
  parseUnits :: "string \<Rightarrow> nat \<Rightarrow> exn + int"
  parseGwei :: "string \<Rightarrow> exn + int"
  decimals :: "string \<Rightarrow> exn + nat"
  getAmountsOut :: "int \<Rightarrow> string list \<Rightarrow> exn + int list"
  allowance :: "string \<Rightarrow> string \<Rightarrow> string \<Rightarrow> exn + int"
  approve :: "string \<Rightarrow> string \<Rightarrow> exn + string"
  estimateGas :: "calldata \<Rightarrow> int option \<Rightarrow> exn + int"
  provider_sendTransaction :: "TransactionRequest \<Rightarrow> exn + string"
  provider_waitForTransaction :: "string \<Rightarrow> nat \<Rightarrow> exn + TransactionReceipt option"
  balanceOf :: "string \<Rightarrow> string \<Rightarrow> exn + string"
  getTokenInfo :: "string \<Rightarrow> exn + TokenInfo"

definition WPLS :: string where
  "WPLS = ''0xA1077a294dDE1B09bB078844df40758a5D0f9a27''"

definition routerV2 :: string where
  "routerV2 = ''0x98bf93ebf5c380C0e6Ae8e192A7e2AE08edAcc02''"

definition deadlineBuffer :: int where
  "deadlineBuffer = 300"

text \<open>\<^verbatim>\<open>amounts[1]\<close>: \<^verbatim>\<open>undefined\<close> when the array is shorter.\<close>

fun index1 :: "'a list \<Rightarrow> 'a option" where
  "index1 (a # b # _) = Some b"
| "index1 _ = None"

subsection \<open>config/pulsechain.ts\<close>

text \<open>
  The functions that \<^verbatim>\<open>ERC20_ABI\<close> declares; its sixth entry is the \<^verbatim>\<open>Transfer\<close> event. A
  contract object that is built from an ABI passes a call of a function of the ABI on to
  the chain. A call of any other name raises (\<^verbatim>\<open>ethers\<close> finds no matching fragment) and
  nothing is asked of the chain.
\<close>

definition ERC20_ABI :: "string list" where
  "ERC20_ABI = [''name'', ''symbol'', ''decimals'', ''totalSupply'', ''balanceOf'']"

definition contract_call :: "string list \<Rightarrow> string \<Rightarrow> exn + 'a \<Rightarrow> exn + 'a" where
  "contract_call abi fname answer =
     (if fname \<in> set abi then answer else Inl (Error ''no matching fragment''))"

subsection \<open>lib/sniper/wallet-service.ts\<close>

definition sendTransaction ::
  "chain \<Rightarrow> string option \<Rightarrow> TransactionRequest \<Rightarrow> exn + TransactionResponse" where
  "sendTransaction ch wallet tx =
     (case wallet of
        None \<Rightarrow> Inl (Error ''Wallet not initialized'')
      | Some _ \<Rightarrow>
          (case provider_sendTransaction ch tx of
             Inl e \<Rightarrow> Inl e
           | Inr h \<Rightarrow> Inr \<lparr> hash = h, request = tx \<rparr>))"

definition waitForTransaction ::
  "chain \<Rightarrow> string \<Rightarrow> nat \<Rightarrow> exn + TransactionReceipt option" where
  "waitForTransaction ch txHash confirmations = provider_waitForTransaction ch txHash confirmations"

definition getTokenBalance :: "chain \<Rightarrow> string option \<Rightarrow> string \<Rightarrow> exn + string" where
  "getTokenBalance ch wallet tokenAddress =
     (case wallet of
        None \<Rightarrow> Inl (Error ''Wallet not initialized'')
      | Some walletAddress \<Rightarrow> balanceOf ch tokenAddress walletAddress)"

subsection \<open>lib/sniper/swap-service.ts\<close>

text \<open>
  The two local constants of both swap paths:
  \<^verbatim>\<open>slippageBigInt = BigInt(Math.floor(slippagePercent * 100))\<close>, where the product is
  a product of doubles, and
  \<^verbatim>\<open>minAmountOut = (amountOutMin * (BigInt(10000) - slippageBigInt)) / BigInt(10000)\<close>.
\<close>

definition slippageBigInt :: "chain \<Rightarrow> real \<Rightarrow> exn + int" where
  "slippageBigInt ch slippage = BigInt_floor (js_mul (to_double ch) (Num slippage) (Num 100))"

definition minAmountOut :: "int \<Rightarrow> int \<Rightarrow> int" where
  "minAmountOut amountOutMin slippageBps = bigint_div (amountOutMin * (10000 - slippageBps)) 10000"

text \<open>\<^verbatim>\<open>BigInt(Math.floor(Number(estimatedGas) * gasLimitMultiplier))\<close>\<close>

definition gasLimit_of :: "chain \<Rightarrow> int \<Rightarrow> real \<Rightarrow> exn + int" where
  "gasLimit_of ch estimatedGas multiplier =
     BigInt_floor (js_mul (to_double ch) (to_double ch (real_of_int estimatedGas)) (Num multiplier))"

definition with_gasPrice ::
  "chain \<Rightarrow> string option \<Rightarrow> TransactionRequest \<Rightarrow> exn + TransactionRequest" where
  "with_gasPrice ch customGasPriceGwei tx =
     (case customGasPriceGwei of
        None \<Rightarrow> Inr tx
      | Some g \<Rightarrow>
          if truthy_str g
          then (case parseGwei ch g of
                  Inl e \<Rightarrow> Inl e
                | Inr p \<Rightarrow> Inr (tx\<lparr>tx_gasPrice := Some p\<rparr>))
          else Inr tx)"

definition buyTokenWithPLS ::
  "chain \<Rightarrow> string option \<Rightarrow> string \<Rightarrow> decimal_string \<Rightarrow> real \<Rightarrow> real \<Rightarrow> string option
     \<Rightarrow> exn + TransactionResponse" where
  "buyTokenWithPLS ch wallet tokenAddress plsAmount slippage multiplier customGasPriceGwei =
     (case wallet of
        None \<Rightarrow> Inl (Error ''Wallet not initialized'')
      | Some walletAddress \<Rightarrow>
     (case parseEther ch plsAmount of
        Inl e \<Rightarrow> Inl e
      | Inr amountIn \<Rightarrow>
     (case getAmountsOut ch amountIn [WPLS, tokenAddress] of
        Inl e \<Rightarrow> Inl e
      | Inr amounts \<Rightarrow>
     (case slippageBigInt ch slippage of
        Inl e \<Rightarrow> Inl e
      | Inr slippageBps \<Rightarrow>
     (case index1 amounts of
        None \<Rightarrow> Inl (Error ''TypeError'')
      | Some amountOutMin \<Rightarrow>
     (let deadline = now ch div 1000 + deadlineBuffer;
          call = SwapExactETHForTokens (minAmountOut amountOutMin slippageBps)
                   [WPLS, tokenAddress] walletAddress deadline
      in
     (case estimateGas ch call (Some amountIn) of
        Inl e \<Rightarrow> Inl e
      | Inr estimatedGas \<Rightarrow>
     (case gasLimit_of ch estimatedGas multiplier of
        Inl e \<Rightarrow> Inl e
      | Inr gasLimit \<Rightarrow>
     (case with_gasPrice ch customGasPriceGwei
             \<lparr> tx_to = routerV2, tx_data = call, tx_value = Some amountIn,
               tx_gasLimit = gasLimit, tx_gasPrice = None \<rparr> of
        Inl e \<Rightarrow> Inl e
      | Inr tx \<Rightarrow> sendTransaction ch wallet tx)))))))))"

text \<open>
  \<^verbatim>\<open>approveTokenIfNeeded\<close> builds the token contract from \<^verbatim>\<open>ERC20_ABI\<close> and calls its
  \<^verbatim>\<open>allowance\<close> and \<^verbatim>\<open>approve\<close>. The result is the exception, if one is raised. The ABI
  declares neither function, so the first call raises and the token is never asked for
  the allowance.
\<close>

definition approveTokenIfNeeded :: "chain \<Rightarrow> string option \<Rightarrow> string \<Rightarrow> int \<Rightarrow> exn option" where
  "approveTokenIfNeeded ch wallet tokenAddress amount =
     (case wallet of
        None \<Rightarrow> Some (Error ''Wallet not initialized'')
      | Some walletAddress \<Rightarrow>
     (case contract_call ERC20_ABI ''allowance''
             (allowance ch tokenAddress walletAddress routerV2) of
        Inl e \<Rightarrow> Some e
      | Inr a \<Rightarrow>
          if a < amount
          then (case contract_call ERC20_ABI ''approve'' (approve ch tokenAddress routerV2) of
                  Inl e \<Rightarrow> Some e
                | Inr _ \<Rightarrow> None)
          else None))"

text \<open>
  \<^verbatim>\<open>sellTokenForPLS\<close> from the read of the decimals to the minimum output (lines 136 to
  152): the amount to sell and the minimum output, which the function logs before it asks
  for the approval.
\<close>

definition sellTokenForPLS_quote :: "chain \<Rightarrow> string \<Rightarrow> string \<Rightarrow> real \<Rightarrow> exn + int \<times> int" where
  "sellTokenForPLS_quote ch tokenAddress tokenAmount slippage =
     (case contract_call ERC20_ABI ''decimals'' (decimals ch tokenAddress) of
        Inl e \<Rightarrow> Inl e
      | Inr dec \<Rightarrow>
     (case parseUnits ch tokenAmount dec of
        Inl e \<Rightarrow> Inl e
      | Inr amountIn \<Rightarrow>
     (case getAmountsOut ch amountIn [tokenAddress, WPLS] of
        Inl e \<Rightarrow> Inl e
      | Inr amounts \<Rightarrow>
     (case slippageBigInt ch slippage of
        Inl e \<Rightarrow> Inl e
      | Inr slippageBps \<Rightarrow>
     (case index1 amounts of
        None \<Rightarrow> Inl (Error ''TypeError'')
      | Some amountOutMin \<Rightarrow> Inr (amountIn, minAmountOut amountOutMin slippageBps))))))"

definition sellTokenForPLS ::
  "chain \<Rightarrow> string option \<Rightarrow> string \<Rightarrow> string \<Rightarrow> real \<Rightarrow> real \<Rightarrow> string option
     \<Rightarrow> exn + TransactionResponse" where
  "sellTokenForPLS ch wallet tokenAddress tokenAmount slippage multiplier customGasPriceGwei =
     (case wallet of
        None \<Rightarrow> Inl (Error ''Wallet not initialized'')
      | Some walletAddress \<Rightarrow>
     (case sellTokenForPLS_quote ch tokenAddress tokenAmount slippage of
        Inl e \<Rightarrow> Inl e
      | Inr (amountIn, minOut) \<Rightarrow>
     (case approveTokenIfNeeded ch wallet tokenAddress amountIn of
        Some e \<Rightarrow> Inl e
      | None \<Rightarrow>
     (let deadline = now ch div 1000 + deadlineBuffer;
          call = SwapExactTokensForETH amountIn minOut [tokenAddress, WPLS] walletAddress deadline
      in
     (case estimateGas ch call None of
        Inl e \<Rightarrow> Inl e
      | Inr estimatedGas \<Rightarrow>
     (case gasLimit_of ch estimatedGas multiplier of
        Inl e \<Rightarrow> Inl e
      | Inr gasLimit \<Rightarrow>
     (case with_gasPrice ch customGasPriceGwei
             \<lparr> tx_to = routerV2, tx_data = call, tx_value = None,
               tx_gasLimit = gasLimit, tx_gasPrice = None \<rparr> of
        Inl e \<Rightarrow> Inl e
      | Inr tx \<Rightarrow> sendTransaction ch wallet tx)))))))"

text \<open>The minimum output a swap request carries (its \<^verbatim>\<open>amountOutMin\<close> argument).\<close>

fun amountOutMin_of :: "calldata \<Rightarrow> int" where
  "amountOutMin_of (SwapExactETHForTokens m _ _ _) = m"
| "amountOutMin_of (SwapExactTokensForETH _ m _ _ _) = m"

section \<open>Positions and the sniper engine\<close>

subsection \<open>types/sniper.ts\<close>

datatype PositionStatus = Holding | Sold | PositionFailed

record TokenPosition =
  tokenAddress :: string
  tokenSymbol :: string
  tokenName :: string
  buyTransactionHash :: string
  buyTimestamp :: int
  buyPricePLS :: decimal_string
  amountTokens :: string
  currentPricePLS :: "decimal_string option"
  profitLossPercent :: "jsnumber option"
  sellTransactionHash :: "string option"
  sellTimestamp :: "int option"
  sellPricePLS :: "decimal_string option"
  status :: PositionStatus

record SnipeResult =
  success :: bool
  result_tokenAddress :: string
  result_transactionHash :: "string option"
  amountSpentPLS :: "decimal_string option"
  amountReceived :: "string option"
  error :: "string option"
  timestamp :: int

subsection \<open>lib/sniper/sniper-engine.ts\<close>

text \<open>
  \<open>wallet\<close> is the wallet of the engine's WalletService (its address, \<open>None\<close> before
  \<^verbatim>\<open>initialize\<close>); \<open>swapService\<close> says whether the SwapService object exists.
  \<open>positions\<close> is keyed by the token address as it was passed in. The two callbacks
  (\<^verbatim>\<open>onSnipe\<close>, \<^verbatim>\<open>onPositionUpdate\<close>) only observe; they are taken not to raise and are
  left out of the state.
\<close>

record SniperEngine =
  wallet :: "string option"
  swapService :: bool
  config :: SniperConfig
  isRunning :: bool
  positions :: "string \<Rightarrow> TokenPosition option"

definition or_default :: "string option \<Rightarrow> string \<Rightarrow> string" where
  "or_default v d = (case v of None \<Rightarrow> d | Some x \<Rightarrow> if truthy_str x then x else d)"

text \<open>
  The \<^verbatim>\<open>try\<close> block of \<^verbatim>\<open>executeSnipe\<close> up to the point where the position object
  is built: the metadata lookup that may fail silently, the buy, the wait for one
  confirmation, the check of the receipt, the balance read.
\<close>

definition snipe_attempt ::
  "chain \<Rightarrow> SniperEngine \<Rightarrow> string \<Rightarrow> exn + (TransactionResponse \<times> TokenPosition)" where
  "snipe_attempt ch s tokenAddr =
     (if \<not> swapService s then Inl (Error ''Swap service not initialized'')
      else
     (let tokenInfo = (case getTokenInfo ch tokenAddr of Inl _ \<Rightarrow> None | Inr i \<Rightarrow> Some i) in
     (case buyTokenWithPLS ch (wallet s) tokenAddr (buyAmountPLS (config s))
             (slippagePercent (config s)) (gasLimitMultiplier (config s)) (gasPriceGwei (config s)) of
        Inl e \<Rightarrow> Inl e
      | Inr txResponse \<Rightarrow>
     (case waitForTransaction ch (hash txResponse) 1 of
        Inl e \<Rightarrow> Inl e
      | Inr receipt \<Rightarrow>
     (if (case receipt of None \<Rightarrow> True | Some r \<Rightarrow> receipt_status r \<noteq> Some 1)
      then Inl (Error ''Transaction failed'')
      else
     (case getTokenBalance ch (wallet s) tokenAddr of
        Inl e \<Rightarrow> Inl e
      | Inr tokenBalance \<Rightarrow>
          Inr (txResponse,
            \<lparr> tokenAddress = tokenAddr,
              tokenSymbol = or_default (map_option info_symbol tokenInfo) ''UNKNOWN'',
              tokenName = or_default (map_option info_name tokenInfo) ''Unknown Token'',
              buyTransactionHash = hash txResponse,
              buyTimestamp = now ch,
              buyPricePLS = buyAmountPLS (config s),
              amountTokens = tokenBalance,
              currentPricePLS = None,
              profitLossPercent = None,
              sellTransactionHash = None,
              sellTimestamp = None,
              sellPricePLS = None,
              status = Holding \<rparr>)))))))"

definition executeSnipe :: "chain \<Rightarrow> SniperEngine \<Rightarrow> string \<Rightarrow> SniperEngine \<times> SnipeResult" where
  "executeSnipe ch s tokenAddr =
     (case snipe_attempt ch s tokenAddr of
        Inr (txResponse, position) \<Rightarrow>
          (s\<lparr>positions := (positions s)(tokenAddr \<mapsto> position)\<rparr>,
           \<lparr> success = True,
             result_tokenAddress = tokenAddr,
             result_transactionHash = Some (hash txResponse),
             amountSpentPLS = Some (buyAmountPLS (config s)),
             amountReceived = Some (amountTokens position),
             error = None,
             timestamp = now ch \<rparr>)
      | Inl (Error message) \<Rightarrow>
          (s,
           \<lparr> success = False,
             result_tokenAddress = tokenAddr,
             result_transactionHash = None,
             amountSpentPLS = None,
             amountReceived = None,
             error = Some message,
             timestamp = now ch \<rparr>))"

text \<open>\<^verbatim>\<open>amount || position?.amountTokens\<close>, and \<^verbatim>\<open>!amountToSell\<close>.\<close>

definition amountToSell_of :: "string option \<Rightarrow> TokenPosition option \<Rightarrow> string option" where
  "amountToSell_of amount position =
     (let fromPosition = map_option amountTokens position;
          chosen = (case amount of
                      None \<Rightarrow> fromPosition
                    | Some a \<Rightarrow> if truthy_str a then Some a else fromPosition)
      in case chosen of
           None \<Rightarrow> None
         | Some a \<Rightarrow> if truthy_str a then Some a else None)"

text \<open>
  \<^verbatim>\<open>sellToken\<close> returns the transaction response or raises; the state it leaves is
  returned in both cases.
\<close>

definition sellToken ::
  "chain \<Rightarrow> SniperEngine \<Rightarrow> string \<Rightarrow> string option \<Rightarrow> SniperEngine \<times> (exn + TransactionResponse)" where
  "sellToken ch s tokenAddr amount =
     (if \<not> swapService s then (s, Inl (Error ''Swap service not initialized''))
      else
     (let position = positions s tokenAddr in
     (case amountToSell_of amount position of
        None \<Rightarrow> (s, Inl (Error ''No position found for token''))
      | Some amountToSell \<Rightarrow>
     (case sellTokenForPLS ch (wallet s) tokenAddr amountToSell
             (slippagePercent (config s)) (gasLimitMultiplier (config s)) (gasPriceGwei (config s)) of
        Inl e \<Rightarrow> (s, Inl e)
      | Inr txResponse \<Rightarrow>
     (case waitForTransaction ch (hash txResponse) 1 of
        Inl e \<Rightarrow> (s, Inl e)
      | Inr receipt \<Rightarrow>
     (case (receipt, position) of
        (Some r, Some pos) \<Rightarrow>
          if receipt_status r = Some 1
          then (s\<lparr>positions := (positions s)(tokenAddr \<mapsto>
                     pos\<lparr>status := Sold,
                         sellTransactionHash := Some (hash txResponse),
                         sellTimestamp := Some (now ch)\<rparr>)\<rparr>,
                Inr txResponse)
          else (s, Inr txResponse)
      | _ \<Rightarrow> (s, Inr txResponse)))))))"

definition updateConfig :: "SniperEngine \<Rightarrow> PartialSniperConfig \<Rightarrow> SniperEngine" where
  "updateConfig s cfg = s\<lparr>config := spread_config (config s) cfg\<rparr>"

text \<open>The engine that \<^verbatim>\<open>getSniperEngine\<close> of lib/sniper/server.ts constructs.\<close>

definition new_SniperEngine :: "SniperConfig \<Rightarrow> SniperEngine" where
  "new_SniperEngine cfg =
     \<lparr> wallet = None, swapService = False, config = cfg, isRunning = False,
       positions = (\<lambda>_. None) \<rparr>"

section \<open>Limit orders: price monitor, portfolio and auto-sell engine\<close>

datatype OrderType = take_profit | stop_loss

datatype OrderStatus = Pending | Executed | Cancelled | Failed

record LimitOrder =
  order_id :: string
  order_tokenAddress :: string
  orderType :: OrderType
  targetPricePLS :: decimal_string
  order_amountTokens :: string
  order_slippagePercent :: real
  createdAt :: int
  executedAt :: "int option"
  transactionHash :: "string option"
  order_status :: OrderStatus

record PriceUpdate =
  update_tokenAddress :: string
  pricePLS :: decimal_string
  update_timestamp :: int
  reserveToken :: string
  reservePLS :: string

text \<open>\<^verbatim>\<open>String.prototype.toLowerCase\<close> on the ASCII letters (addresses are hexadecimal).\<close>

definition toLowerCase_char :: "char \<Rightarrow> char" where
  "toLowerCase_char c =
     (let n = (of_char c :: nat) in if 65 \<le> n \<and> n \<le> 90 then char_of (n + 32) else c)"

definition toLowerCase :: "string \<Rightarrow> string" where
  "toLowerCase s = map toLowerCase_char s"

subsection \<open>The price monitor (src/unnamed/part_000)\<close>

text \<open>
  \<open>monitoredTokens\<close> is the \<^verbatim>\<open>Set\<close> in insertion order, \<open>limitOrders\<close> the \<^verbatim>\<open>Map\<close> from
  order id to order in insertion order. An order object is identified with its entry in
  \<open>limitOrders\<close>: assigning to a field of the object updates the entry under its id.
  \<open>onLimitOrderTriggeredCallback\<close> says whether the auto-sell engine has registered its
  handler (the only handler the repository registers). \<open>triggered\<close> is the console
  output of \<^verbatim>\<open>checkLimitOrders\<close>: one line, order id and price, for each order it fires.
\<close>

record PriceMonitor =
  monitoredTokens :: "string list"
  priceCache :: "string \<Rightarrow> PriceUpdate option"
  limitOrders :: "(string \<times> LimitOrder) list"
  monitor_isRunning :: bool
  onLimitOrderTriggeredCallback :: bool
  triggered :: "(string \<times> decimal_string) list"

definition set_add :: "'a \<Rightarrow> 'a list \<Rightarrow> 'a list" where
  "set_add x xs = (if x \<in> set xs then xs else xs @ [x])"

definition addToken :: "string \<Rightarrow> PriceMonitor \<Rightarrow> PriceMonitor" where
  "addToken tokenAddr m = m\<lparr>monitoredTokens := set_add (toLowerCase tokenAddr) (monitoredTokens m)\<rparr>"

definition removeToken :: "string \<Rightarrow> PriceMonitor \<Rightarrow> PriceMonitor" where
  "removeToken tokenAddr m =
     m\<lparr>monitoredTokens := removeAll (toLowerCase tokenAddr) (monitoredTokens m),
       priceCache := (priceCache m)(toLowerCase tokenAddr := None)\<rparr>"

definition addLimitOrder :: "LimitOrder \<Rightarrow> PriceMonitor \<Rightarrow> PriceMonitor" where
  "addLimitOrder order m =
     addToken (order_tokenAddress order)
       (m\<lparr>limitOrders := AList.update (order_id order) order (limitOrders m)\<rparr>)"

definition removeLimitOrder :: "string \<Rightarrow> PriceMonitor \<Rightarrow> PriceMonitor" where
  "removeLimitOrder orderId m = m\<lparr>limitOrders := AList.delete orderId (limitOrders m)\<rparr>"

definition getLimitOrders :: "PriceMonitor \<Rightarrow> LimitOrder list" where
  "getLimitOrders m = map snd (limitOrders m)"

definition getPendingLimitOrders :: "PriceMonitor \<Rightarrow> LimitOrder list" where
  "getPendingLimitOrders m = filter (\<lambda>ord. order_status ord = Pending) (getLimitOrders m)"

text \<open>
  \<^verbatim>\<open>getPrice\<close>: everything is inside the \<^verbatim>\<open>try\<close>, and the \<^verbatim>\<open>catch\<close> returns \<^verbatim>\<open>'0'\<close>.
  \<^verbatim>\<open>formatEther\<close> prints the amount divided by \<open>10^18\<close>; read as a number, the string
  is the double nearest to it.
\<close>

definition formatEther :: "chain \<Rightarrow> int \<Rightarrow> decimal_string" where
  "formatEther ch a = to_double ch (real_of_int a / 10 ^ 18)"

definition getPrice :: "chain \<Rightarrow> string \<Rightarrow> decimal_string" where
  "getPrice ch tokenAddr =
     (case decimals ch tokenAddr of
        Inl _ \<Rightarrow> Num 0
      | Inr dec \<Rightarrow>
     (case parseUnits ch ''1'' dec of
        Inl _ \<Rightarrow> Num 0
      | Inr amountIn \<Rightarrow>
     (case getAmountsOut ch amountIn [tokenAddr, WPLS] of
        Inl _ \<Rightarrow> Num 0
      | Inr amounts \<Rightarrow>
     (case index1 amounts of
        None \<Rightarrow> Num 0
      | Some a \<Rightarrow> formatEther ch a))))"

definition shouldTrigger :: "LimitOrder \<Rightarrow> decimal_string \<Rightarrow> bool" where
  "shouldTrigger order currentPrice =
     (case orderType order of
        take_profit \<Rightarrow> js_ge currentPrice (targetPricePLS order)
      | stop_loss \<Rightarrow> js_le currentPrice (targetPricePLS order))"

subsection \<open>lib/sniper/portfolio-service.ts\<close>

type_synonym PortfolioService = "string \<Rightarrow> TokenPosition option"

definition getPosition :: "PortfolioService \<Rightarrow> string \<Rightarrow> TokenPosition option" where
  "getPosition ps tokenAddr = ps (toLowerCase tokenAddr)"

definition addPosition :: "TokenPosition \<Rightarrow> PortfolioService \<Rightarrow> PortfolioService" where
  "addPosition position ps = ps(toLowerCase (tokenAddress position) \<mapsto> position)"

text \<open>The spread \<^verbatim>\<open>{ ...position, ...updates }\<close> where \<open>updates\<close> is a whole position.\<close>

definition spread_position :: "TokenPosition \<Rightarrow> TokenPosition \<Rightarrow> TokenPosition" where
  "spread_position position updates =
     updates\<lparr>currentPricePLS := override_opt (currentPricePLS position) (currentPricePLS updates),
             profitLossPercent := override_opt (profitLossPercent position) (profitLossPercent updates),
             sellTransactionHash := override_opt (sellTransactionHash position) (sellTransactionHash updates),
             sellTimestamp := override_opt (sellTimestamp position) (sellTimestamp updates),
             sellPricePLS := override_opt (sellPricePLS position) (sellPricePLS updates)\<rparr>"

definition updatePosition :: "string \<Rightarrow> TokenPosition \<Rightarrow> PortfolioService \<Rightarrow> PortfolioService" where
  "updatePosition tokenAddr updates ps =
     (case ps (toLowerCase tokenAddr) of
        None \<Rightarrow> ps
      | Some position \<Rightarrow> ps(toLowerCase tokenAddr \<mapsto> spread_position position updates))"

subsection \<open>lib/sniper/auto-sell-engine.ts\<close>

text \<open>Decimal digits of a number, for the order id \<^verbatim>\<open>`${tokenAddress}-${orderType}-${Date.now()}`\<close>.\<close>

function string_of_nat :: "nat \<Rightarrow> string" where
  "string_of_nat n =
     (if n < 10 then [char_of (48 + n)]
      else string_of_nat (n div 10) @ [char_of (48 + n mod 10)])"
  by pat_completeness auto
termination
  by (relation "measure (\<lambda>n. n)") auto

declare string_of_nat.simps [simp del]

fun orderType_string :: "OrderType \<Rightarrow> string" where
  "orderType_string take_profit = ''take_profit''"
| "orderType_string stop_loss = ''stop_loss''"

text \<open>
  The engine holds the sniper engine, the price monitor and the portfolio service.
  \<open>suspended\<close> are the calls of \<^verbatim>\<open>executeLimitOrder\<close> that have reached
  \<^verbatim>\<open>await this.sniperEngine.sellToken(...)\<close> and not yet continued, each with its
  arguments: the handler that the constructor registers does not await
  \<^verbatim>\<open>executeLimitOrder\<close>, so the price monitor goes on while the sell is in flight.
\<close>

record AutoSellEngine =
  sniperEngine :: SniperEngine
  priceMonitor :: PriceMonitor
  portfolioService :: PortfolioService
  autoSell_isRunning :: bool
  suspended :: "(LimitOrder \<times> decimal_string) list"

definition new_AutoSellEngine ::
  "SniperEngine \<Rightarrow> PriceMonitor \<Rightarrow> PortfolioService \<Rightarrow> AutoSellEngine" where
  "new_AutoSellEngine sn pm ps =
     \<lparr> sniperEngine = sn,
       priceMonitor = pm\<lparr>onLimitOrderTriggeredCallback := True\<rparr>,
       portfolioService = ps,
       autoSell_isRunning = False,
       suspended = [] \<rparr>"

text \<open>Assignment to fields of the order object with the given id.\<close>

definition mutate_order :: "string \<Rightarrow> (LimitOrder \<Rightarrow> LimitOrder) \<Rightarrow> AutoSellEngine \<Rightarrow> AutoSellEngine" where
  "mutate_order orderId f a =
     a\<lparr>priceMonitor := (priceMonitor a)
          \<lparr>limitOrders := AList.map_entry orderId f (limitOrders (priceMonitor a))\<rparr>\<rparr>"

definition createLimitOrder ::
  "chain \<Rightarrow> string \<Rightarrow> OrderType \<Rightarrow> decimal_string \<Rightarrow> string option \<Rightarrow> AutoSellEngine
     \<Rightarrow> exn + (LimitOrder \<times> AutoSellEngine)" where
  "createLimitOrder ch tokenAddr ty target amount a =
     (case getPosition (portfolioService a) tokenAddr of
        None \<Rightarrow> Inl (Error ''No position found for token'')
      | Some position \<Rightarrow>
          (let order =
             \<lparr> order_id = tokenAddr @ ''-'' @ orderType_string ty @ ''-'' @ string_of_nat (nat (now ch)),
               order_tokenAddress = tokenAddr,
               orderType = ty,
               targetPricePLS = target,
               order_amountTokens = or_default amount (amountTokens position),
               order_slippagePercent = slippagePercent (config (sniperEngine a)),
               createdAt = now ch,
               executedAt = None,
               transactionHash = None,
               order_status = Pending \<rparr>
           in Inr (order, a\<lparr>priceMonitor := addLimitOrder order (priceMonitor a)\<rparr>)))"

text \<open>
  One of the two blocks of \<^verbatim>\<open>createAutoLimitOrders\<close>: \<^verbatim>\<open>if (percent)\<close> guards it,
  the target is \<^verbatim>\<open>buyPrice * factor\<close> with the factor \<^verbatim>\<open>1 + percent / 100\<close> or
  \<^verbatim>\<open>1 - percent / 100\<close>, and an exception of \<^verbatim>\<open>createLimitOrder\<close> leaves the function.
\<close>

definition auto_order ::
  "chain \<Rightarrow> TokenPosition \<Rightarrow> OrderType \<Rightarrow> real option \<Rightarrow> (real \<Rightarrow> jsnumber) \<Rightarrow> AutoSellEngine
     \<Rightarrow> AutoSellEngine \<times> exn option" where
  "auto_order ch position ty percent factor a =
     (case percent of
        None \<Rightarrow> (a, None)
      | Some pc \<Rightarrow>
          if truthy_num pc
          then (let buyPrice = buyPricePLS position;
                    targetPrice = js_mul (to_double ch) buyPrice (factor pc)
                in case createLimitOrder ch (tokenAddress position) ty targetPrice
                          (Some (amountTokens position)) a of
                     Inl e \<Rightarrow> (a, Some e)
                   | Inr (_, a') \<Rightarrow> (a', None))
          else (a, None))"

definition createAutoLimitOrders ::
  "chain \<Rightarrow> TokenPosition \<Rightarrow> AutoSellEngine \<Rightarrow> AutoSellEngine \<times> exn option" where
  "createAutoLimitOrders ch position a =
     (let cfg = config (sniperEngine a) in
      if \<not> autoSellEnabled cfg then (a, None)
      else
        (case auto_order ch position take_profit (takeProfitPercent cfg)
                (\<lambda>takeProfit. js_add (to_double ch) (Num 1)
                                 (js_div (to_double ch) (Num takeProfit) (Num 100))) a of
           (a1, Some e) \<Rightarrow> (a1, Some e)
         | (a1, None) \<Rightarrow>
             auto_order ch position stop_loss (stopLossPercent cfg)
               (\<lambda>stopLoss. js_sub (to_double ch) (Num 1)
                              (js_div (to_double ch) (Num stopLoss) (Num 100))) a1))"

text \<open>
  \<^verbatim>\<open>executeLimitOrder\<close> up to its first \<^verbatim>\<open>await\<close>. This part runs inside the call of
  the handler: a missing position is raised and caught here, and the order is marked
  failed before the handler returns.
\<close>

definition executeLimitOrder_start ::
  "chain \<Rightarrow> LimitOrder \<Rightarrow> decimal_string \<Rightarrow> AutoSellEngine \<Rightarrow> AutoSellEngine" where
  "executeLimitOrder_start ch order currentPrice a =
     (case getPosition (portfolioService a) (order_tokenAddress order) of
        None \<Rightarrow>
          mutate_order (order_id order)
            (\<lambda>x. x\<lparr>order_status := Failed, executedAt := Some (now ch)\<rparr>) a
      | Some position \<Rightarrow> a\<lparr>suspended := suspended a @ [(order, currentPrice)]\<rparr>)"

text \<open>
  The rest of \<^verbatim>\<open>executeLimitOrder\<close>, when the awaited \<^verbatim>\<open>sellToken\<close> has settled. The
  position object is the entry of the portfolio under the order's token.
\<close>

definition profitLoss :: "chain \<Rightarrow> decimal_string \<Rightarrow> decimal_string \<Rightarrow> jsnumber" where
  "profitLoss ch buyPrice sellPrice =
     js_mul (to_double ch)
       (js_div (to_double ch) (js_sub (to_double ch) sellPrice buyPrice) buyPrice) (Num 100)"

definition executeLimitOrder_resume ::
  "chain \<Rightarrow> LimitOrder \<times> decimal_string \<Rightarrow> AutoSellEngine \<Rightarrow> AutoSellEngine" where
  "executeLimitOrder_resume ch call a =
     (let order = fst call;
          currentPrice = snd call;
          a0 = a\<lparr>suspended := remove1 call (suspended a)\<rparr>
      in
      case sellToken ch (sniperEngine a0) (order_tokenAddress order) (Some (order_amountTokens order)) of
        (sn, Inl e) \<Rightarrow>
          mutate_order (order_id order)
            (\<lambda>x. x\<lparr>order_status := Failed, executedAt := Some (now ch)\<rparr>)
            (a0\<lparr>sniperEngine := sn\<rparr>)
      | (sn, Inr txResponse) \<Rightarrow>
          (let a1 = mutate_order (order_id order)
                      (\<lambda>x. x\<lparr>transactionHash := Some (hash txResponse),
                              executedAt := Some (now ch),
                              order_status := Executed\<rparr>)
                      (a0\<lparr>sniperEngine := sn\<rparr>);
               a2 = (case getPosition (portfolioService a1) (order_tokenAddress order) of
                       None \<Rightarrow> a1
                     | Some position \<Rightarrow>
                         a1\<lparr>portfolioService :=
                              updatePosition (order_tokenAddress order)
                                (position\<lparr>sellPricePLS := Some currentPrice,
                                          sellTimestamp := Some (now ch),
                                          sellTransactionHash := Some (hash txResponse),
                                          status := Sold,
                                          profitLossPercent :=
                                            Some (profitLoss ch (buyPricePLS position) currentPrice)\<rparr>)
                                (portfolioService a1)\<rparr>)
           in a2\<lparr>priceMonitor := removeToken (order_tokenAddress order) (priceMonitor a2)\<rparr>))"

subsection \<open>The monitoring tick (src/unnamed/part_000, with the handler attached)\<close>

text \<open>The body of the loop of \<^verbatim>\<open>checkLimitOrders\<close>, for one order of the filtered list.\<close>

definition checkLimitOrders_body ::
  "chain \<Rightarrow> decimal_string \<Rightarrow> LimitOrder \<Rightarrow> AutoSellEngine \<Rightarrow> AutoSellEngine" where
  "checkLimitOrders_body ch currentPrice order a =
     (if shouldTrigger order currentPrice
      then
        (let a1 = a\<lparr>priceMonitor := (priceMonitor a)
                     \<lparr>triggered := triggered (priceMonitor a) @ [(order_id order, currentPrice)]\<rparr>\<rparr>;
             a2 = (if onLimitOrderTriggeredCallback (priceMonitor a1)
                   then executeLimitOrder_start ch order currentPrice a1
                   else a1)
         in mutate_order (order_id order)
              (\<lambda>x. x\<lparr>order_status := Executed, executedAt := Some (now ch)\<rparr>) a2)
      else a)"

definition checkLimitOrders ::
  "chain \<Rightarrow> string \<Rightarrow> decimal_string \<Rightarrow> AutoSellEngine \<Rightarrow> AutoSellEngine" where
  "checkLimitOrders ch tokenAddr currentPrice a =
     (let orders =
            filter (\<lambda>x. toLowerCase (order_tokenAddress x) = toLowerCase tokenAddr
                         \<and> order_status x = Pending)
              (map snd (limitOrders (priceMonitor a)))
      in fold (checkLimitOrders_body ch currentPrice) orders a)"

text \<open>
  One iteration of the loop of \<^verbatim>\<open>checkPrices\<close>, and the loop. \<^verbatim>\<open>getPrice\<close> never raises and
  no price-update callback is set, so the \<^verbatim>\<open>catch\<close> of the loop is not reached. A tick is
  taken as one step: the sells that are suspended continue after it, not between two of
  its requests.
\<close>

definition checkPrices_body :: "chain \<Rightarrow> string \<Rightarrow> AutoSellEngine \<Rightarrow> AutoSellEngine" where
  "checkPrices_body ch tokenAddr a =
     (let price = getPrice ch tokenAddr;
          update = \<lparr> update_tokenAddress = tokenAddr, pricePLS = price,
                     update_timestamp = now ch, reserveToken = ''0'', reservePLS = ''0'' \<rparr>;
          a1 = a\<lparr>priceMonitor := (priceMonitor a)
                  \<lparr>priceCache := (priceCache (priceMonitor a))(toLowerCase tokenAddr \<mapsto> update)\<rparr>\<rparr>
      in checkLimitOrders ch tokenAddr price a1)"

definition checkPrices :: "chain \<Rightarrow> AutoSellEngine \<Rightarrow> AutoSellEngine" where
  "checkPrices ch a = fold (checkPrices_body ch) (monitoredTokens (priceMonitor a)) a"

section \<open>The mint watcher (src/unnamed/part_002)\<close>

record MintEvent =
  token :: string
  mint_to :: string
  amount :: string
  blockNumber :: int
  mint_transactionHash :: string
  mint_timestamp :: int
  logIndex :: nat

record Log =
  log_address :: string
  log_data :: string
  log_blockNumber :: int
  log_transactionHash :: string
  log_index :: nat

record EventLog =
  ev_args :: "string list option"
  ev_blockNumber :: int
  ev_transactionHash :: string
  ev_index :: nat

record PolledLog =
  plog_address :: string
  plog_topics :: "string list"
  plog_data :: string
  plog_index :: nat

record PolledTransaction =
  ptx_hash :: string
  ptx_logs :: "PolledLog list option"

record Block =
  block_timestamp :: int
  block_transactions :: "PolledTransaction list"

text \<open>
  The provider and the \<^verbatim>\<open>ethers\<close> helpers the watcher calls. \<open>getLogs\<close> takes the
  \<^verbatim>\<open>fromBlock\<close> of the filter (the topics are fixed, \<^verbatim>\<open>toBlock\<close> is \<^verbatim>\<open>'latest'\<close>);
  \<open>queryFilter\<close> takes the token and the first block.
\<close>

record provider =
  isWebSocket :: bool
  date_now :: int
  getBlockNumber :: "exn + int"
  getLogs :: "int \<Rightarrow> exn + Log list"
  getBlock :: "int \<Rightarrow> exn + Block option"
  queryFilter :: "string \<Rightarrow> int \<Rightarrow> exn + EventLog list"
  decode_uint256 :: "string \<Rightarrow> exn + string"
  getAddress :: "string \<Rightarrow> exn + string"
  transfer_topic :: string
  zeroPadValue :: "string \<Rightarrow> string"

definition ZERO_ADDRESS :: string where
  "ZERO_ADDRESS = ''0x0000000000000000000000000000000000000000''"

text \<open>
  \<open>listeners\<close> and \<open>tokenContracts\<close> are the keys of the two maps. \<open>contract_on\<close> has one
  entry for each handler registered with \<^verbatim>\<open>tokenContract.on\<close>; \<open>timers\<close> has one entry
  for each running \<^verbatim>\<open>setInterval\<close> loop, the \<^verbatim>\<open>lastCheckedBlock\<close> of its closure.
  \<open>delivered\<close> is the sequence of calls of the callback.
\<close>

record MintWatcher =
  watchedAddress :: string
  isListening :: bool
  listeners :: "string list"
  tokenContracts :: "string list"
  contract_on :: "string list"
  timers :: "int list"
  delivered :: "MintEvent list"

text \<open>\<^verbatim>\<open>block?.timestamp || Math.floor(Date.now() / 1000)\<close>\<close>

definition timestamp_or_now :: "provider \<Rightarrow> Block option \<Rightarrow> int" where
  "timestamp_or_now pv block =
     (case block of
        None \<Rightarrow> date_now pv div 1000
      | Some b \<Rightarrow> if block_timestamp b \<noteq> 0 then block_timestamp b else date_now pv div 1000)"

text \<open>The body of the loop over the logs in \<^verbatim>\<open>getRecentMints\<close>: \<open>None\<close> when it raises.\<close>

definition parse_mint_log :: "provider \<Rightarrow> MintWatcher \<Rightarrow> Log \<Rightarrow> MintEvent option" where
  "parse_mint_log pv w lg =
     (case decode_uint256 pv (log_data lg) of
        Inl _ \<Rightarrow> None
      | Inr decoded \<Rightarrow>
     (case getBlock pv (log_blockNumber lg) of
        Inl _ \<Rightarrow> None
      | Inr block \<Rightarrow>
          Some \<lparr> token = log_address lg,
                 mint_to = watchedAddress w,
                 amount = decoded,
                 blockNumber = log_blockNumber lg,
                 mint_transactionHash = log_transactionHash lg,
                 mint_timestamp = timestamp_or_now pv block,
                 logIndex = log_index lg \<rparr>))"

text \<open>
  \<^verbatim>\<open>getRecentMints(blockRange)\<close>. The block number is read outside the \<^verbatim>\<open>try\<close>. The
  result is sorted with the comparator \<^verbatim>\<open>b.blockNumber - a.blockNumber\<close>; the sort of the
  language is stable.
\<close>

definition getRecentMints :: "provider \<Rightarrow> MintWatcher \<Rightarrow> int \<Rightarrow> exn + MintEvent list" where
  "getRecentMints pv w blockRange =
     (case getBlockNumber pv of
        Inl e \<Rightarrow> Inl e
      | Inr currentBlock \<Rightarrow>
          (let fromBlock = max 0 (currentBlock - blockRange);
               mints = (case getLogs pv fromBlock of
                          Inl _ \<Rightarrow> []
                        | Inr logs \<Rightarrow> List.map_filter (parse_mint_log pv w) logs)
           in Inr (sort_key (\<lambda>m. - blockNumber m) mints)))"

definition parseTransferEvent :: "provider \<Rightarrow> EventLog \<Rightarrow> string \<Rightarrow> exn + MintEvent" where
  "parseTransferEvent pv event tokenAddr =
     (case ev_args event of
        None \<Rightarrow> Inl (Error ''Invalid Transfer event: missing arguments'')
      | Some args \<Rightarrow>
          if length args < 3 then Inl (Error ''Invalid Transfer event: missing arguments'')
          else
         (case getBlock pv (ev_blockNumber event) of
            Inl e \<Rightarrow> Inl e
          | Inr block \<Rightarrow>
         (case getAddress pv (args ! 1) of
            Inl e \<Rightarrow> Inl e
          | Inr toAddr \<Rightarrow>
              Inr \<lparr> token = tokenAddr,
                    mint_to = toAddr,
                    amount = args ! 2,
                    blockNumber = ev_blockNumber event,
                    mint_transactionHash = ev_transactionHash event,
                    mint_timestamp = timestamp_or_now pv block,
                    logIndex = ev_index event \<rparr>)))"

text \<open>
  The historical loop of \<^verbatim>\<open>watchToken\<close>, inside its \<^verbatim>\<open>try\<close>: an exception ends the
  loop and keeps what was delivered.
\<close>

fun deliver_historical :: "provider \<Rightarrow> string \<Rightarrow> EventLog list \<Rightarrow> MintEvent list" where
  "deliver_historical pv tokenAddr [] = []"
| "deliver_historical pv tokenAddr (event # events) =
     (case ev_args event of
        None \<Rightarrow> deliver_historical pv tokenAddr events
      | Some args \<Rightarrow>
          if length args \<ge> 3
          then (case parseTransferEvent pv event tokenAddr of
                  Inl _ \<Rightarrow> []
                | Inr mintEvent \<Rightarrow> mintEvent # deliver_historical pv tokenAddr events)
          else deliver_historical pv tokenAddr events)"

definition watchToken :: "provider \<Rightarrow> string \<Rightarrow> int option \<Rightarrow> bool \<Rightarrow> MintWatcher \<Rightarrow> MintWatcher" where
  "watchToken pv tokenAddr fromBlock includeHistorical w =
     (let w1 = w\<lparr>tokenContracts := set_add tokenAddr (tokenContracts w)\<rparr>;
          w2 = (case fromBlock of
                  None \<Rightarrow> w1
                | Some fb \<Rightarrow>
                    if includeHistorical
                    then (case queryFilter pv tokenAddr fb of
                            Inl _ \<Rightarrow> w1
                          | Inr events \<Rightarrow>
                              w1\<lparr>delivered := delivered w1 @ deliver_historical pv tokenAddr events\<rparr>)
                    else w1);
          w3 = (if isWebSocket pv then w2\<lparr>contract_on := contract_on w2 @ [tokenAddr]\<rparr> else w2)
      in w3\<lparr>listeners := set_add tokenAddr (listeners w3)\<rparr>)"

definition setupNetworkWideListener :: "MintWatcher \<Rightarrow> MintWatcher" where
  "setupNetworkWideListener w = w\<lparr>timers := timers w @ [0]\<rparr>"

text \<open>
  \<^verbatim>\<open>fromBlock || (await this.provider.getBlockNumber()) - 1000\<close>, and
  \<^verbatim>\<open>startListening(callback, fromBlock?, includeHistorical, tokenAddress?)\<close>: the state it
  leaves, and the exception when the returned promise is rejected.
\<close>

definition startBlock_of :: "provider \<Rightarrow> int option \<Rightarrow> exn + int" where
  "startBlock_of pv fromBlock =
     (let fallback = (case getBlockNumber pv of Inl e \<Rightarrow> Inl e | Inr b \<Rightarrow> Inr (b - 1000))
      in case fromBlock of
           None \<Rightarrow> fallback
         | Some fb \<Rightarrow> if fb \<noteq> 0 then Inr fb else fallback)"

definition startListening ::
  "provider \<Rightarrow> int option \<Rightarrow> bool \<Rightarrow> string option \<Rightarrow> MintWatcher \<Rightarrow> MintWatcher \<times> exn option" where
  "startListening pv fromBlock includeHistorical tokenAddr w =
     (if isListening w then (w, None)
      else
     (let w1 = w\<lparr>isListening := True\<rparr>;
          specific = (case tokenAddr of
                        None \<Rightarrow> None
                      | Some t \<Rightarrow> if truthy_str t then Some t else None);
          live = (\<lambda>w2. case specific of
                          Some t \<Rightarrow> watchToken pv t None False w2
                        | None \<Rightarrow> setupNetworkWideListener w2)
      in
      if includeHistorical
      then
       (case startBlock_of pv fromBlock of
          Inl e \<Rightarrow> (w1, Some e)
        | Inr startBlock \<Rightarrow>
           (case specific of
              Some t \<Rightarrow> (live (watchToken pv t (Some startBlock) True w1), None)
            | None \<Rightarrow>
               (case getRecentMints pv w1 startBlock of
                  Inl e \<Rightarrow> (w1, Some e)
                | Inr recentMints \<Rightarrow>
                    (live (w1\<lparr>delivered := delivered w1 @ recentMints\<rparr>), None))))
      else (live w1, None)))"

definition stopListening :: "MintWatcher \<Rightarrow> MintWatcher" where
  "stopListening w =
     (if \<not> isListening w then w
      else w\<lparr>contract_on := [], tokenContracts := [], listeners := [],
             timers := butlast (timers w), isListening := False\<rparr>)"

text \<open>
  One run of \<^verbatim>\<open>checkNewBlocks\<close>, the function a polling loop calls every three seconds:
  the new value of \<^verbatim>\<open>lastCheckedBlock\<close> and the events it passes to the callback.
\<close>

definition is_mint_log :: "provider \<Rightarrow> MintWatcher \<Rightarrow> PolledLog \<Rightarrow> bool" where
  "is_mint_log pv w lg =
     (length (plog_topics lg) \<ge> 3
      \<and> plog_topics lg ! 0 = transfer_topic pv
      \<and> plog_topics lg ! 1 = zeroPadValue pv ZERO_ADDRESS
      \<and> plog_topics lg ! 2 = zeroPadValue pv (watchedAddress w))"

definition polled_event ::
  "provider \<Rightarrow> MintWatcher \<Rightarrow> int \<Rightarrow> Block \<Rightarrow> PolledTransaction \<Rightarrow> PolledLog \<Rightarrow> MintEvent" where
  "polled_event pv w blockNum block tx lg =
     \<lparr> token = plog_address lg,
       mint_to = watchedAddress w,
       amount = (case decode_uint256 pv (plog_data lg) of Inl _ \<Rightarrow> plog_data lg | Inr d \<Rightarrow> d),
       blockNumber = blockNum,
       mint_transactionHash = ptx_hash tx,
       mint_timestamp = block_timestamp block,
       logIndex = plog_index lg \<rparr>"

definition block_events :: "provider \<Rightarrow> MintWatcher \<Rightarrow> int \<Rightarrow> MintEvent list" where
  "block_events pv w blockNum =
     (case getBlock pv blockNum of
        Inl _ \<Rightarrow> []
      | Inr None \<Rightarrow> []
      | Inr (Some block) \<Rightarrow>
          concat (map (\<lambda>tx. case ptx_logs tx of
                              None \<Rightarrow> []
                            | Some logs \<Rightarrow>
                                map (polled_event pv w blockNum block tx)
                                  (filter (is_mint_log pv w) logs))
                    (block_transactions block)))"

definition checkNewBlocks :: "provider \<Rightarrow> MintWatcher \<Rightarrow> int \<Rightarrow> int \<times> MintEvent list" where
  "checkNewBlocks pv w lastCheckedBlock =
     (case getBlockNumber pv of
        Inl _ \<Rightarrow> (lastCheckedBlock, [])
      | Inr currentBlock \<Rightarrow>
          (let lastChecked = (if lastCheckedBlock = 0 then currentBlock - 1 else lastCheckedBlock) in
           if currentBlock > lastChecked
           then (currentBlock, concat (map (block_events pv w) [lastChecked + 1 .. currentBlock]))
           else (lastChecked, [])))"

text \<open>A tick of the \<open>i\<close>-th running polling loop.\<close>

definition poll_tick :: "provider \<Rightarrow> nat \<Rightarrow> MintWatcher \<Rightarrow> MintWatcher" where
  "poll_tick pv i w =
     (if i < length (timers w)
      then (let r = checkNewBlocks pv w (timers w ! i)
            in w\<lparr>timers := (timers w)[i := fst r], delivered := delivered w @ snd r\<rparr>)
      else w)"

section \<open>Sample inputs\<close>

text \<open>
  A chain on which every request succeeds, with exact arithmetic (the sample inputs only
  compute values that are doubles), and an initialised engine.
\<close>

definition sample_chain :: chain where
  "sample_chain =
     \<lparr> to_double = Num,
       now = 1700000000000,
       parseEther = (\<lambda>_. Inr 100),
       parseUnits = (\<lambda>_ _. Inr 1000),
       parseGwei = (\<lambda>_. Inr 1),
       decimals = (\<lambda>_. Inr 18),
       getAmountsOut = (\<lambda>a _. Inr [a, 10000]),
       allowance = (\<lambda>_ _ _. Inr 0),
       approve = (\<lambda>_ _. Inr ''0xa''),
       estimateGas = (\<lambda>_ _. Inr 21000),
       provider_sendTransaction = (\<lambda>_. Inr ''0xb''),
       provider_waitForTransaction = (\<lambda>_ _. Inr (Some \<lparr> receipt_status = Some 1 \<rparr>)),
       balanceOf = (\<lambda>_ _. Inr ''5''),
       getTokenInfo = (\<lambda>_. Inr \<lparr> info_name = ''T'', info_symbol = ''TK'' \<rparr>) \<rparr>"

text \<open>The same chain, where the receipt of every transaction reports failure.\<close>

definition reverting_chain :: chain where
  "reverting_chain =
     sample_chain\<lparr>provider_waitForTransaction := (\<lambda>_ _. Inr (Some \<lparr> receipt_status = Some 0 \<rparr>))\<rparr>"

definition sample_engine :: SniperEngine where
  "sample_engine =
     (new_SniperEngine DEFAULT_SNIPER_CONFIG)\<lparr>wallet := Some ''0xw'', swapService := True\<rparr>"

definition no_update :: PartialSniperConfig where
  "no_update =
     \<lparr> p_autoBuyEnabled = None, p_buyAmountPLS = None, p_slippagePercent = None,
       p_gasLimitMultiplier = None, p_gasPriceGwei = None, p_autoSellEnabled = None,
       p_takeProfitPercent = None, p_stopLossPercent = None, p_minBuyEnabled = None,
       p_minBuyCount = None \<rparr>"

text \<open>The minimum output as the specification words it, with \<^verbatim>\<open>round\<close>.\<close>

definition spec_minOut :: "int \<Rightarrow> real \<Rightarrow> int" where
  "spec_minOut q s = q * (10000 - round (s * 100)) div 10000"

section \<open>Notions used in the statements\<close>

text \<open>A rounding that preserves the order, as rounding to the nearest double does.\<close>

definition monotone_rounding :: "(real \<Rightarrow> jsnumber) \<Rightarrow> bool" where
  "monotone_rounding d = (\<forall>x y. x \<le> y \<longrightarrow> js_le (d x) (d y))"

text \<open>The order stored under an id, and what \<^verbatim>\<open>checkLimitOrders\<close> assigns to an order it fires.\<close>

definition entry :: "AutoSellEngine \<Rightarrow> string \<Rightarrow> LimitOrder option" where
  "entry a orderId = map_of (limitOrders (priceMonitor a)) orderId"

definition mark_executed :: "chain \<Rightarrow> LimitOrder \<Rightarrow> LimitOrder" where
  "mark_executed ch x = x\<lparr>order_status := Executed, executedAt := Some (now ch)\<rparr>"

text \<open>
  An order fires in a call of \<^verbatim>\<open>checkLimitOrders\<close> when the call reports it as triggered
  (and calls the handler for it): its id and the price are among the lines the call adds
  to the console output.
\<close>

definition fires :: "chain \<Rightarrow> string \<Rightarrow> decimal_string \<Rightarrow> AutoSellEngine \<Rightarrow> string \<Rightarrow> bool" where
  "fires ch tokenAddr currentPrice a orderId =
     ((orderId, currentPrice) \<in>
        set (drop (length (triggered (priceMonitor a)))
               (triggered (priceMonitor (checkLimitOrders ch tokenAddr currentPrice a)))))"

text \<open>
  The calls of \<^verbatim>\<open>executeLimitOrder\<close> that a call of \<^verbatim>\<open>checkLimitOrders\<close> starts and leaves
  suspended at their sell, each with its order and price.
\<close>

definition started ::
  "chain \<Rightarrow> string \<Rightarrow> decimal_string \<Rightarrow> AutoSellEngine \<Rightarrow> (LimitOrder \<times> decimal_string) list" where
  "started ch tokenAddr currentPrice a =
     drop (length (suspended a)) (suspended (checkLimitOrders ch tokenAddr currentPrice a))"

text \<open>The orders a whole tick (\<^verbatim>\<open>checkPrices\<close>) fires, with the prices.\<close>

definition tick_triggered :: "chain \<Rightarrow> AutoSellEngine \<Rightarrow> (string \<times> decimal_string) list" where
  "tick_triggered ch a =
     drop (length (triggered (priceMonitor a))) (triggered (priceMonitor (checkPrices ch a)))"

text \<open>
  What the \<^verbatim>\<open>Map\<close> and the \<^verbatim>\<open>Set\<close> of the monitor guarantee: an order is stored under its
  own id, no id occurs twice, and the monitored tokens are lower-case (\<^verbatim>\<open>addToken\<close> stores
  them so).
\<close>

definition wf_orders :: "PriceMonitor \<Rightarrow> bool" where
  "wf_orders m =
     (distinct (map fst (limitOrders m))
      \<and> (\<forall>e \<in> set (limitOrders m). order_id (snd e) = fst e))"

definition lowercase_tokens :: "string list \<Rightarrow> bool" where
  "lowercase_tokens ts = (\<forall>x \<in> set ts. toLowerCase x = x)"

text \<open>The filter of \<^verbatim>\<open>checkLimitOrders\<close>: a pending order on the token.\<close>

definition selected :: "string \<Rightarrow> LimitOrder \<Rightarrow> bool" where
  "selected tokenAddr x =
     (toLowerCase (order_tokenAddress x) = toLowerCase tokenAddr \<and> order_status x = Pending)"

text \<open>A pending order whose token is among the tokens and whose threshold the quote meets.\<close>

definition quote_fires :: "chain \<Rightarrow> LimitOrder \<Rightarrow> string list \<Rightarrow> bool" where
  "quote_fires ch x ts =
     (order_status x = Pending
      \<and> toLowerCase (order_tokenAddress x) \<in> set ts
      \<and> shouldTrigger x (getPrice ch (toLowerCase (order_tokenAddress x))))"

text \<open>
  The quote for a token fails: one of the requests of \<^verbatim>\<open>getPrice\<close> raises, or the router
  answers with fewer than two amounts.
\<close>

definition quote_fails :: "chain \<Rightarrow> string \<Rightarrow> bool" where
  "quote_fails ch tokenAddr =
     (case decimals ch tokenAddr of
        Inl _ \<Rightarrow> True
      | Inr dec \<Rightarrow>
     (case parseUnits ch ''1'' dec of
        Inl _ \<Rightarrow> True
      | Inr amountIn \<Rightarrow>
     (case getAmountsOut ch amountIn [tokenAddr, WPLS] of
        Inl _ \<Rightarrow> True
      | Inr amounts \<Rightarrow> index1 amounts = None)))"

section \<open>More sample inputs\<close>

definition out_of_range_update :: PartialSniperConfig where
  "out_of_range_update = no_update\<lparr>p_slippagePercent := Some 150\<rparr>"

definition in_range_update :: PartialSniperConfig where
  "in_range_update = no_update\<lparr>p_slippagePercent := Some 5, p_gasLimitMultiplier := Some 2\<rparr>"

text \<open>A chain on which the router's quote raises.\<close>

definition quoteless_chain :: chain where
  "quoteless_chain = sample_chain\<lparr>getAmountsOut := (\<lambda>_ _. Inl (Error ''execution reverted''))\<rparr>"

definition sample_position :: TokenPosition where
  "sample_position =
     \<lparr> tokenAddress = ''0xt'', tokenSymbol = ''TK'', tokenName = ''T'',
       buyTransactionHash = ''0xb'', buyTimestamp = 1690000000000, buyPricePLS = Num 100,
       amountTokens = ''5'', currentPricePLS = None, profitLossPercent = None,
       sellTransactionHash = None, sellTimestamp = None, sellPricePLS = None,
       status = Holding \<rparr>"

definition new_PriceMonitor :: PriceMonitor where
  "new_PriceMonitor =
     \<lparr> monitoredTokens = [], priceCache = (\<lambda>_. None), limitOrders = [],
       monitor_isRunning = False, onLimitOrderTriggeredCallback = False, triggered = [] \<rparr>"

text \<open>An engine with auto-sell enabled that holds the sample position.\<close>

definition holding_engine :: SniperEngine where
  "holding_engine =
     sample_engine\<lparr>config := (config sample_engine)\<lparr>autoSellEnabled := True\<rparr>,
                   positions := (\<lambda>_. None)(''0xt'' \<mapsto> sample_position)\<rparr>"

definition unarmed_engine :: AutoSellEngine where
  "unarmed_engine =
     new_AutoSellEngine holding_engine new_PriceMonitor (addPosition sample_position (\<lambda>_. None))"

definition tp_order :: LimitOrder where
  "tp_order =
     \<lparr> order_id = ''0xt-take_profit-1700000000000'', order_tokenAddress = ''0xt'',
       orderType = take_profit, targetPricePLS = Num 200, order_amountTokens = ''5'',
       order_slippagePercent = 10, createdAt = 1700000000000, executedAt = None,
       transactionHash = None, order_status = Pending \<rparr>"

definition sl_order :: LimitOrder where
  "sl_order =
     \<lparr> order_id = ''0xt-stop_loss-1700000000000'', order_tokenAddress = ''0xt'',
       orderType = stop_loss, targetPricePLS = Num 50, order_amountTokens = ''5'',
       order_slippagePercent = 10, createdAt = 1700000000000, executedAt = None,
       transactionHash = None, order_status = Pending \<rparr>"

text \<open>The engine after \<^verbatim>\<open>createAutoLimitOrders\<close> for the sample position.\<close>

definition armed_engine :: AutoSellEngine where
  "armed_engine =
     unarmed_engine\<lparr>priceMonitor := (priceMonitor unarmed_engine)
        \<lparr>monitoredTokens := [''0xt''],
         limitOrders := [(''0xt-take_profit-1700000000000'', tp_order),
                         (''0xt-stop_loss-1700000000000'', sl_order)]\<rparr>\<rparr>"

text \<open>The same engine when the portfolio has lost the position of the token.\<close>

definition orphaned_engine :: AutoSellEngine where
  "orphaned_engine = armed_engine\<lparr>portfolioService := (\<lambda>_. None)\<rparr>"

text \<open>The armed engine after a tick at price 200, which fires the take-profit order.\<close>

definition fired_engine :: AutoSellEngine where
  "fired_engine = checkLimitOrders sample_chain ''0xt'' (Num 200) armed_engine"

text \<open>The fired engine when the suspended sell has continued, on the same chain.\<close>

definition resumed_engine :: AutoSellEngine where
  "resumed_engine = executeLimitOrder_resume sample_chain (tp_order, Num 200) fired_engine"

text \<open>A provider with two mint logs, at blocks 4500 and 4700, and a fresh watcher.\<close>

definition sample_provider :: provider where
  "sample_provider =
     \<lparr> isWebSocket = False,
       date_now = 1700000000000,
       getBlockNumber = Inr 5000,
       getLogs = (\<lambda>_. Inr [\<lparr> log_address = ''0xt1'', log_data = ''1'', log_blockNumber = 4500,
                               log_transactionHash = ''0xh1'', log_index = 0 \<rparr>,
                             \<lparr> log_address = ''0xt2'', log_data = ''2'', log_blockNumber = 4700,
                               log_transactionHash = ''0xh2'', log_index = 3 \<rparr>]),
       getBlock = (\<lambda>n. Inr (Some \<lparr> block_timestamp = 10 * n, block_transactions = [] \<rparr>)),
       queryFilter = (\<lambda>_ _. Inr []),
       decode_uint256 = (\<lambda>d. Inr d),
       getAddress = (\<lambda>a. Inr a),
       transfer_topic = ''0xddf252ad'',
       zeroPadValue = (\<lambda>a. a) \<rparr>"

definition new_MintWatcher :: "string \<Rightarrow> MintWatcher" where
  "new_MintWatcher addr =
     \<lparr> watchedAddress = addr, isListening = False, listeners = [], tokenContracts = [],
       contract_on = [], timers = [], delivered = [] \<rparr>"

definition listening_watcher :: MintWatcher where
  "listening_watcher = fst (startListening sample_provider None False None (new_MintWatcher ''0xw''))"

section \<open>The minimum output of a swap\<close>

lemma bigint_div_nonneg: "0 \<le> a \<Longrightarrow> 0 < b \<Longrightarrow> bigint_div a b = a div b"
  by (cases "a = 0") (auto simp: bigint_div_def sgn_if)

lemma slippageBigInt_bounds:
  assumes "monotone_rounding (to_double ch)"
      and "to_double ch 0 = Num 0" and "to_double ch 10000 = Num 10000"
      and "0 \<le> s" and "s < 100"
  obtains x where "to_double ch (s * 100) = Num x" and "slippageBigInt ch s = Inr \<lfloor>x\<rfloor>"
    and "0 \<le> \<lfloor>x\<rfloor>" and "\<lfloor>x\<rfloor> \<le> 10000"
proof -
  have lo: "js_le (to_double ch 0) (to_double ch (s * 100))"
    using assms(1,4) unfolding monotone_rounding_def by simp
  have hi: "js_le (to_double ch (s * 100)) (to_double ch 10000)"
    using assms(1,5) unfolding monotone_rounding_def by simp
  show ?thesis
  proof (cases "to_double ch (s * 100)")
    case (Num x)
    with lo hi assms(2,3) have "0 \<le> x" "x \<le> 10000"
      by simp_all
    then have "0 \<le> \<lfloor>x\<rfloor>" "\<lfloor>x\<rfloor> \<le> 10000"
      by (simp_all add: floor_le_iff)
    with Num that show ?thesis
      by (simp add: slippageBigInt_def)
  qed (use lo hi assms(2,3) in simp_all)
qed

lemma minAmountOut_floor:
  "0 \<le> bps \<Longrightarrow> bps \<le> 10000 \<Longrightarrow> 0 \<le> q \<Longrightarrow>
     minAmountOut q bps = q * (10000 - bps) div 10000"
  unfolding minAmountOut_def by (subst bigint_div_nonneg) auto

lemma slippageBigInt_mono:
  assumes "monotone_rounding (to_double ch)" and "s \<le> s'"
      and "slippageBigInt ch s = Inr bps" and "slippageBigInt ch s' = Inr bps'"
  shows "bps \<le> bps'"
proof -
  have le: "js_le (to_double ch (s * 100)) (to_double ch (s' * 100))"
    using assms(1,2) unfolding monotone_rounding_def by simp
  from assms(3,4) obtain x x' where
    "to_double ch (s * 100) = Num x" "bps = \<lfloor>x\<rfloor>"
    "to_double ch (s' * 100) = Num x'" "bps' = \<lfloor>x'\<rfloor>"
    unfolding slippageBigInt_def
    by (cases "to_double ch (s * 100)"; cases "to_double ch (s' * 100)") auto
  with le show ?thesis
    by (simp add: floor_mono)
qed

lemma minAmountOut_antimono:
  assumes "0 \<le> bps" "bps \<le> bps'" "bps' \<le> 10000" "0 \<le> q"
  shows "minAmountOut q bps' \<le> minAmountOut q bps"
proof -
  have "q * (10000 - bps') \<le> q * (10000 - bps)"
    using assms by (intro mult_left_mono) auto
  then have "q * (10000 - bps') div 10000 \<le> q * (10000 - bps) div 10000"
    by (rule zdiv_mono1) simp
  then show ?thesis
    using assms by (simp add: minAmountOut_floor)
qed

lemma minAmountOut_no_slippage: "minAmountOut q 0 = q"
proof -
  have "\<bar>q * 10000\<bar> div 10000 = \<bar>q\<bar>"
    by (simp add: abs_mult)
  moreover have "sgn (q * 10000) = sgn q"
    by (simp add: sgn_mult)
  ultimately show ?thesis
    by (simp add: minAmountOut_def bigint_div_def sgn_if abs_if)
qed

lemma buy_path_minimum:
  assumes "buyTokenWithPLS ch w t pls s m g = Inr r"
  shows "\<exists>amountIn amounts q bps.
           parseEther ch pls = Inr amountIn
         \<and> getAmountsOut ch amountIn [WPLS, t] = Inr amounts
         \<and> index1 amounts = Some q
         \<and> slippageBigInt ch s = Inr bps
         \<and> amountOutMin_of (tx_data (request r)) = minAmountOut q bps"
  using assms unfolding buyTokenWithPLS_def with_gasPrice_def sendTransaction_def
  by (auto split: option.splits sum.splits if_splits simp: Let_def)

lemma decimals_in_ABI: "contract_call ERC20_ABI ''decimals'' answer = answer"
  by (simp add: contract_call_def ERC20_ABI_def)

lemma allowance_not_in_ABI:
  "contract_call ERC20_ABI ''allowance'' answer = Inl (Error ''no matching fragment'')"
  by (simp add: contract_call_def ERC20_ABI_def)

lemma sell_quote_minimum:
  assumes "sellTokenForPLS_quote ch t amt s = Inr (amountIn, minOut)"
  shows "\<exists>dec amounts q bps.
           decimals ch t = Inr dec
         \<and> parseUnits ch amt dec = Inr amountIn
         \<and> getAmountsOut ch amountIn [t, WPLS] = Inr amounts
         \<and> index1 amounts = Some q
         \<and> slippageBigInt ch s = Inr bps
         \<and> minOut = minAmountOut q bps"
  using assms unfolding sellTokenForPLS_quote_def decimals_in_ABI
  by (auto split: option.splits sum.splits)

lemma sell_path_minimum:
  assumes "sellTokenForPLS ch w t amt s m g = Inr r"
  shows "\<exists>dec amountIn amounts q bps.
           decimals ch t = Inr dec
         \<and> parseUnits ch amt dec = Inr amountIn
         \<and> getAmountsOut ch amountIn [t, WPLS] = Inr amounts
         \<and> index1 amounts = Some q
         \<and> slippageBigInt ch s = Inr bps
         \<and> amountOutMin_of (tx_data (request r)) = minAmountOut q bps"
proof -
  from assms obtain amountIn minOut where
    q: "sellTokenForPLS_quote ch t amt s = Inr (amountIn, minOut)" and
    m: "amountOutMin_of (tx_data (request r)) = minOut"
    unfolding sellTokenForPLS_def with_gasPrice_def sendTransaction_def
    by (auto split: option.splits sum.splits prod.splits if_splits simp: Let_def)
  from sell_quote_minimum[OF q] m show ?thesis
    by blast
qed

lemma minimum_output_formula:
  assumes "monotone_rounding (to_double ch)"
      and "to_double ch 0 = Num 0" and "to_double ch 10000 = Num 10000"
      and "0 \<le> s" and "s < 100" and "0 \<le> q"
  shows "\<exists>x. to_double ch (s * 100) = Num x
           \<and> slippageBigInt ch s = Inr \<lfloor>x\<rfloor>
           \<and> minAmountOut q \<lfloor>x\<rfloor> = q * (10000 - \<lfloor>x\<rfloor>) div 10000"
proof -
  obtain x where x: "to_double ch (s * 100) = Num x" "slippageBigInt ch s = Inr \<lfloor>x\<rfloor>"
      "0 \<le> \<lfloor>x\<rfloor>" "\<lfloor>x\<rfloor> \<le> 10000"
    by (rule slippageBigInt_bounds[OF assms(1-5)])
  have "minAmountOut q \<lfloor>x\<rfloor> = q * (10000 - \<lfloor>x\<rfloor>) div 10000"
    by (rule minAmountOut_floor[OF x(3,4) assms(6)])
  with x(1,2) show ?thesis
    by (intro exI[of _ x]) simp
qed

lemma minimum_output_antimono:
  assumes "monotone_rounding (to_double ch)"
      and "to_double ch 0 = Num 0" and "to_double ch 10000 = Num 10000"
      and "0 \<le> s" and "s \<le> s'" and "s' < 100" and "0 \<le> q"
  shows "\<exists>bps bps'. slippageBigInt ch s = Inr bps \<and> slippageBigInt ch s' = Inr bps'
           \<and> minAmountOut q bps' \<le> minAmountOut q bps"
proof -
  have s100: "s < 100" and s'0: "0 \<le> s'"
    using assms(4-6) by simp_all
  obtain x where x: "to_double ch (s * 100) = Num x" "slippageBigInt ch s = Inr \<lfloor>x\<rfloor>"
      "0 \<le> \<lfloor>x\<rfloor>" "\<lfloor>x\<rfloor> \<le> 10000"
    by (rule slippageBigInt_bounds[OF assms(1-4) s100])
  obtain x' where x': "to_double ch (s' * 100) = Num x'" "slippageBigInt ch s' = Inr \<lfloor>x'\<rfloor>"
      "0 \<le> \<lfloor>x'\<rfloor>" "\<lfloor>x'\<rfloor> \<le> 10000"
    by (rule slippageBigInt_bounds[OF assms(1-3) s'0 assms(6)])
  have "\<lfloor>x\<rfloor> \<le> \<lfloor>x'\<rfloor>"
    by (rule slippageBigInt_mono[OF assms(1,5) x(2) x'(2)])
  then have "minAmountOut q \<lfloor>x'\<rfloor> \<le> minAmountOut q \<lfloor>x\<rfloor>"
    using x(3) x'(4) assms(7) by (intro minAmountOut_antimono)
  then show ?thesis
    using x(2) x'(2) by (intro exI[of _ "\<lfloor>x\<rfloor>"] exI[of _ "\<lfloor>x'\<rfloor>"]) simp
qed

lemma no_slippage_bps: "to_double ch 0 = Num 0 \<Longrightarrow> slippageBigInt ch 0 = Inr 0"
  by (simp add: slippageBigInt_def)

text \<open>
  Claim C6, as amended. Both swap paths take the basis points with \<^verbatim>\<open>Math.floor\<close>, not by
  rounding to the nearest integer: a buy or a sell that is sent carries, as its minimum
  output, \<open>minAmountOut q bps\<close> for the quoted output \<open>q\<close> (the second amount of the router's
  quote) and \<open>bps = floor (s * 100)\<close>, where \<open>s\<close> is the slippage and \<open>s * 100\<close> the product of
  doubles; and this is the minimum output that the sell path computes and logs before its
  approval step (where every sell of this code ends, see the section on a sell). When the
  rounding of doubles preserves the order and gives 0 and 10000 exactly,
  then for \<open>s\<close> in \<open>[0, 100)\<close> and \<open>q \<ge> 0\<close> the minimum output is
  \<open>q * (10000 - floor (s * 100)) div 10000\<close> in integer arithmetic, it does not increase
  when \<open>s\<close> grows, and it is \<open>q\<close> at \<open>s = 0\<close>.
\<close>

theorem C6_minimum_output_uses_floor:
  assumes "monotone_rounding (to_double ch)"
      and "to_double ch 0 = Num 0"
      and "to_double ch 10000 = Num 10000"
  shows
  "(buyTokenWithPLS ch w t pls s m g = Inr r \<longrightarrow>
      (\<exists>amountIn amounts q bps.
          parseEther ch pls = Inr amountIn
        \<and> getAmountsOut ch amountIn [WPLS, t] = Inr amounts
        \<and> index1 amounts = Some q
        \<and> slippageBigInt ch s = Inr bps
        \<and> amountOutMin_of (tx_data (request r)) = minAmountOut q bps))
 \<and> (sellTokenForPLS ch w t amt s m g = Inr r' \<longrightarrow>
      (\<exists>dec amountIn amounts q bps.
          decimals ch t = Inr dec
        \<and> parseUnits ch amt dec = Inr amountIn
        \<and> getAmountsOut ch amountIn [t, WPLS] = Inr amounts
        \<and> index1 amounts = Some q
        \<and> slippageBigInt ch s = Inr bps
        \<and> amountOutMin_of (tx_data (request r')) = minAmountOut q bps))
 \<and> (sellTokenForPLS_quote ch t amt s = Inr (sold, minOut) \<longrightarrow>
      (\<exists>dec amounts q bps.
          decimals ch t = Inr dec
        \<and> parseUnits ch amt dec = Inr sold
        \<and> getAmountsOut ch sold [t, WPLS] = Inr amounts
        \<and> index1 amounts = Some q
        \<and> slippageBigInt ch s = Inr bps
        \<and> minOut = minAmountOut q bps))
 \<and> (0 \<le> s \<and> s < 100 \<and> 0 \<le> q0 \<longrightarrow>
      (\<exists>x. to_double ch (s * 100) = Num x
          \<and> slippageBigInt ch s = Inr \<lfloor>x\<rfloor>
          \<and> minAmountOut q0 \<lfloor>x\<rfloor> = q0 * (10000 - \<lfloor>x\<rfloor>) div 10000))
 \<and> (0 \<le> s \<and> s \<le> s' \<and> s' < 100 \<and> 0 \<le> q0 \<longrightarrow>
      (\<exists>bps bps'. slippageBigInt ch s = Inr bps \<and> slippageBigInt ch s' = Inr bps'
          \<and> minAmountOut q0 bps' \<le> minAmountOut q0 bps))
 \<and> slippageBigInt ch 0 = Inr 0
 \<and> minAmountOut q0 0 = q0"
  using buy_path_minimum[of ch w t pls s m g r] sell_path_minimum[of ch w t amt s m g r']
    sell_quote_minimum[of ch t amt s sold minOut]
    minimum_output_formula[OF assms, of s q0] minimum_output_antimono[OF assms, of s s' q0]
    no_slippage_bps[OF assms(2)] minAmountOut_no_slippage[of q0]
  by blast

lemma sample_rounding:
  "monotone_rounding (to_double sample_chain)"
  "to_double sample_chain x = Num x"
  by (simp_all add: monotone_rounding_def sample_chain_def)

lemma sample_buy:
  "buyTokenWithPLS sample_chain (Some ''0xw'') ''0xt'' (Num 100) (1 / 64) (12 / 10) None =
     Inr \<lparr> hash = ''0xb'',
           request = \<lparr> tx_to = routerV2,
                       tx_data = SwapExactETHForTokens 9999 [WPLS, ''0xt''] ''0xw'' 1700000300,
                       tx_value = Some 100, tx_gasLimit = 25200, tx_gasPrice = None \<rparr> \<rparr>"
  by (simp add: buyTokenWithPLS_def sample_chain_def with_gasPrice_def sendTransaction_def
        minAmountOut_def slippageBigInt_def bigint_div_def gasLimit_of_def deadlineBuffer_def
        Let_def)

lemma sample_sell_quote:
  "sellTokenForPLS_quote sample_chain ''0xt'' ''5'' (1 / 64) = Inr (1000, 9999)"
  by (simp add: sellTokenForPLS_quote_def decimals_in_ABI sample_chain_def minAmountOut_def
        slippageBigInt_def bigint_div_def)

text \<open>
  The theorem at a buy and at the first part of a sell on the sample chain, with a quote
  of 10000 and the slippages 1/64 and 10 per cent.
\<close>

theorem C6_minimum_output_witness:
  "amountOutMin_of (tx_data (request
      \<lparr> hash = ''0xb'',
        request = \<lparr> tx_to = routerV2,
                    tx_data = SwapExactETHForTokens 9999 [WPLS, ''0xt''] ''0xw'' 1700000300,
                    tx_value = Some 100, tx_gasLimit = 25200, tx_gasPrice = None \<rparr> \<rparr>))
     = minAmountOut 10000 1
 \<and> sellTokenForPLS_quote sample_chain ''0xt'' ''5'' (1 / 64) = Inr (1000, minAmountOut 10000 1)
 \<and> slippageBigInt sample_chain (1 / 64) = Inr 1
 \<and> minAmountOut 10000 1 = 10000 * (10000 - 1) div 10000
 \<and> slippageBigInt sample_chain 10 = Inr 1000
 \<and> minAmountOut 10000 1000 \<le> minAmountOut 10000 1
 \<and> slippageBigInt sample_chain 0 = Inr 0
 \<and> minAmountOut 10000 0 = 10000"
proof -
  note inst = C6_minimum_output_uses_floor
      [OF sample_rounding(1) sample_rounding(2) sample_rounding(2),
       of "Some ''0xw''" "''0xt''" "Num 100" "1 / 64" "12 / 10" None
          "\<lparr> hash = ''0xb'',
             request = \<lparr> tx_to = routerV2,
                         tx_data = SwapExactETHForTokens 9999 [WPLS, ''0xt''] ''0xw'' 1700000300,
                         tx_value = Some 100, tx_gasLimit = 25200, tx_gasPrice = None \<rparr> \<rparr>"
          "''5''"
          "\<lparr> hash = ''0xb'',
             request = \<lparr> tx_to = routerV2,
                         tx_data = SwapExactTokensForETH 1000 9999 [''0xt'', WPLS] ''0xw'' 1700000300,
                         tx_value = None, tx_gasLimit = 25200, tx_gasPrice = None \<rparr> \<rparr>"
          1000 9999 10000 10]
  have bps: "slippageBigInt sample_chain (1 / 64) = Inr 1" "slippageBigInt sample_chain 10 = Inr 1000"
    by (simp_all add: slippageBigInt_def sample_chain_def)
  have quote: "getAmountsOut sample_chain a pth = Inr [a, 10000]" for a pth
    by (simp add: sample_chain_def)
  from inst sample_buy sample_sell_quote bps quote show ?thesis
    by (auto simp: sample_rounding)
qed

text \<open>
  The claim as stated fails where \<open>s * 100\<close> has a fractional part of one half or more:
  at \<open>s = 1/64\<close> (1.5625 basis points, a double) and a quote of 10000 the buy that is sent
  asks for at least 9999, and the formula with \<^verbatim>\<open>round\<close> gives 9998.
\<close>

theorem C6_round_counterexample:
  "buyTokenWithPLS sample_chain (Some ''0xw'') ''0xt'' (Num 100) (1 / 64) (12 / 10) None =
     Inr \<lparr> hash = ''0xb'',
           request = \<lparr> tx_to = routerV2,
                       tx_data = SwapExactETHForTokens 9999 [WPLS, ''0xt''] ''0xw'' 1700000300,
                       tx_value = Some 100, tx_gasLimit = 25200, tx_gasPrice = None \<rparr> \<rparr>
 \<and> spec_minOut 10000 (1 / 64) = 9998"
  by (rule conjI, rule sample_buy, simp add: spec_minOut_def round_def)

section \<open>The configuration\<close>

text \<open>
  Claim C9, as amended. The default configuration satisfies the invariant. \<^verbatim>\<open>updateConfig\<close>
  validates nothing: from a configuration that satisfies the invariant, the result
  satisfies it exactly when the partial update leaves \<^verbatim>\<open>slippagePercent\<close> unset or sets it
  inside \<open>[0, 100)\<close>, and leaves \<^verbatim>\<open>gasLimitMultiplier\<close> unset or sets it to at least 1.
\<close>

theorem C9_updateConfig_keeps_invariant_iff_in_range:
  "config_invariant DEFAULT_SNIPER_CONFIG
 \<and> (config_invariant (config s) \<longrightarrow>
      config_invariant (config (updateConfig s cfg)) =
        ((case p_slippagePercent cfg of None \<Rightarrow> True | Some v \<Rightarrow> 0 \<le> v \<and> v < 100)
       \<and> (case p_gasLimitMultiplier cfg of None \<Rightarrow> True | Some v \<Rightarrow> 1 \<le> v)))"
  by (auto simp: config_invariant_def DEFAULT_SNIPER_CONFIG_def updateConfig_def spread_config_def
        override_def split: option.splits)

text \<open>The theorem at the sample engine and an update to 5 per cent slippage and multiplier 2.\<close>

theorem C9_updateConfig_witness:
  "config_invariant (config sample_engine)
 \<and> config_invariant (config (updateConfig sample_engine in_range_update))
 \<and> slippagePercent (config (updateConfig sample_engine in_range_update)) = 5
 \<and> gasLimitMultiplier (config (updateConfig sample_engine in_range_update)) = 2"
proof -
  have inv: "config_invariant (config sample_engine)"
    by (simp add: config_invariant_def sample_engine_def new_SniperEngine_def
          DEFAULT_SNIPER_CONFIG_def)
  have "config_invariant (config (updateConfig sample_engine in_range_update))"
    using C9_updateConfig_keeps_invariant_iff_in_range[of sample_engine in_range_update] inv
    by (simp add: in_range_update_def no_update_def)
  with inv show ?thesis
    by (simp add: updateConfig_def spread_config_def override_def in_range_update_def no_update_def)
qed

text \<open>
  The claim as stated fails: the update \<^verbatim>\<open>{ slippagePercent: 150 }\<close> is applied as it is,
  and the configuration of the engine no longer satisfies the invariant.
\<close>

theorem C9_updateConfig_counterexample:
  "config_invariant (config sample_engine)
 \<and> slippagePercent (config (updateConfig sample_engine out_of_range_update)) = 150
 \<and> \<not> config_invariant (config (updateConfig sample_engine out_of_range_update))"
  by (simp add: config_invariant_def sample_engine_def new_SniperEngine_def
        DEFAULT_SNIPER_CONFIG_def updateConfig_def spread_config_def out_of_range_update_def
        no_update_def override_def)

section \<open>A failed snipe\<close>

lemma snipe_attempt_fails:
  assumes "buy = buyTokenWithPLS ch (wallet s) t (buyAmountPLS (config s))
                   (slippagePercent (config s)) (gasLimitMultiplier (config s))
                   (gasPriceGwei (config s))"
      and "\<not> swapService s
         \<or> (\<exists>e. buy = Inl e)
         \<or> (\<exists>tx. buy = Inr tx \<and>
              ((\<exists>e. waitForTransaction ch (hash tx) 1 = Inl e)
             \<or> waitForTransaction ch (hash tx) 1 = Inr None
             \<or> (\<exists>r. waitForTransaction ch (hash tx) 1 = Inr (Some r) \<and> receipt_status r \<noteq> Some 1)
             \<or> (\<exists>e. getTokenBalance ch (wallet s) t = Inl e)))"
  shows "\<exists>e. snipe_attempt ch s t = Inl e"
  using assms unfolding snipe_attempt_def
  by (auto simp: Let_def split: sum.splits option.splits)

text \<open>
  Claim C2. If a stage of \<^verbatim>\<open>executeSnipe\<close> after the metadata lookup fails (the swap
  service is missing, the buy raises, the wait for the confirmation raises or returns no
  receipt, the receipt reports a status other than 1, or the balance read raises), the
  call returns a result with \<^verbatim>\<open>success: false\<close> and an error message, and the engine,
  its positions included, is as it was before the call.
\<close>

theorem C2_failed_snipe_leaves_positions:
  assumes "buy = buyTokenWithPLS ch (wallet s) t (buyAmountPLS (config s))
                   (slippagePercent (config s)) (gasLimitMultiplier (config s))
                   (gasPriceGwei (config s))"
      and "\<not> swapService s
         \<or> (\<exists>e. buy = Inl e)
         \<or> (\<exists>tx. buy = Inr tx \<and>
              ((\<exists>e. waitForTransaction ch (hash tx) 1 = Inl e)
             \<or> waitForTransaction ch (hash tx) 1 = Inr None
             \<or> (\<exists>r. waitForTransaction ch (hash tx) 1 = Inr (Some r) \<and> receipt_status r \<noteq> Some 1)
             \<or> (\<exists>e. getTokenBalance ch (wallet s) t = Inl e)))"
  shows "\<exists>message.
           executeSnipe ch s t =
             (s, \<lparr> success = False, result_tokenAddress = t, result_transactionHash = None,
                   amountSpentPLS = None, amountReceived = None, error = Some message,
                   timestamp = now ch \<rparr>)
         \<and> positions (fst (executeSnipe ch s t)) = positions s"
proof -
  obtain e where "snipe_attempt ch s t = Inl e"
    using snipe_attempt_fails[OF assms] by blast
  then show ?thesis
    unfolding executeSnipe_def by (cases e) auto
qed

text \<open>
  The theorem at a buy whose transaction is sent and whose receipt reports failure: the
  result is a failure and the engine is unchanged. On the chain where the receipt reports
  success, the same call records a position.
\<close>

theorem C2_failed_snipe_witness:
  "fst (executeSnipe reverting_chain sample_engine ''0xt'') = sample_engine
 \<and> success (snd (executeSnipe reverting_chain sample_engine ''0xt'')) = False
 \<and> error (snd (executeSnipe reverting_chain sample_engine ''0xt'')) \<noteq> None
 \<and> positions (fst (executeSnipe reverting_chain sample_engine ''0xt'')) ''0xt'' = None
 \<and> map_option status (positions (fst (executeSnipe sample_chain sample_engine ''0xt'')) ''0xt'')
      = Some Holding"
proof -
  let ?buy = "buyTokenWithPLS reverting_chain (wallet sample_engine) ''0xt''
                (buyAmountPLS (config sample_engine)) (slippagePercent (config sample_engine))
                (gasLimitMultiplier (config sample_engine)) (gasPriceGwei (config sample_engine))"
  have sent: "\<exists>tx. ?buy = Inr tx"
    by (simp add: slippageBigInt_def gasLimit_of_def buyTokenWithPLS_def reverting_chain_def sample_chain_def sample_engine_def
          new_SniperEngine_def DEFAULT_SNIPER_CONFIG_def with_gasPrice_def sendTransaction_def
          Let_def)
  have reverted: "waitForTransaction reverting_chain h 1 = Inr (Some \<lparr> receipt_status = Some 0 \<rparr>)" for h
    by (simp add: waitForTransaction_def reverting_chain_def sample_chain_def)
  have stage: "\<not> swapService sample_engine
         \<or> (\<exists>e. ?buy = Inl e)
         \<or> (\<exists>tx. ?buy = Inr tx \<and>
              ((\<exists>e. waitForTransaction reverting_chain (hash tx) 1 = Inl e)
             \<or> waitForTransaction reverting_chain (hash tx) 1 = Inr None
             \<or> (\<exists>r. waitForTransaction reverting_chain (hash tx) 1 = Inr (Some r)
                     \<and> receipt_status r \<noteq> Some 1)
             \<or> (\<exists>e. getTokenBalance reverting_chain (wallet sample_engine) ''0xt'' = Inl e)))"
    using sent reverted by auto
  have none: "positions sample_engine ''0xt'' = None"
    by (simp add: sample_engine_def new_SniperEngine_def)
  have bought: "map_option status (positions (fst (executeSnipe sample_chain sample_engine ''0xt'')) ''0xt'')
      = Some Holding"
    by (simp add: slippageBigInt_def gasLimit_of_def executeSnipe_def snipe_attempt_def buyTokenWithPLS_def sample_chain_def
          sample_engine_def new_SniperEngine_def DEFAULT_SNIPER_CONFIG_def with_gasPrice_def
          sendTransaction_def waitForTransaction_def getTokenBalance_def Let_def)
  from C2_failed_snipe_leaves_positions[OF refl stage] none bought show ?thesis
    by auto
qed

section \<open>A sell\<close>

lemma approveTokenIfNeeded_raises: "\<exists>e. approveTokenIfNeeded ch w t amt = Some e"
  by (cases w) (simp_all add: approveTokenIfNeeded_def allowance_not_in_ABI)

lemma sellTokenForPLS_raises: "\<exists>e. sellTokenForPLS ch w t amt s m g = Inl e"
proof (cases w)
  case None
  then show ?thesis
    by (simp add: sellTokenForPLS_def)
next
  case (Some walletAddress)
  show ?thesis
  proof (cases "sellTokenForPLS_quote ch t amt s")
    case (Inl e)
    with Some show ?thesis
      by (simp add: sellTokenForPLS_def)
  next
    case (Inr res)
    obtain amountIn minOut where res: "res = (amountIn, minOut)"
      by (cases res)
    obtain e where "approveTokenIfNeeded ch w t amountIn = Some e"
      using approveTokenIfNeeded_raises by blast
    with Some Inr res show ?thesis
      by (simp add: sellTokenForPLS_def)
  qed
qed

lemma sellToken_raises: "\<exists>e. sellToken ch s t amt = (s, Inl e)"
proof (cases "swapService s")
  case False
  then show ?thesis
    by (simp add: sellToken_def)
next
  case True
  show ?thesis
  proof (cases "amountToSell_of amt (positions s t)")
    case None
    with True show ?thesis
      by (simp add: sellToken_def)
  next
    case (Some amountToSell)
    obtain e where
      "sellTokenForPLS ch (wallet s) t amountToSell (slippagePercent (config s))
         (gasLimitMultiplier (config s)) (gasPriceGwei (config s)) = Inl e"
      using sellTokenForPLS_raises by blast
    with True Some show ?thesis
      by (simp add: sellToken_def)
  qed
qed



section \<open>The mint watcher\<close>

lemma sample_start:
  "startListening sample_provider None False None (new_MintWatcher ''0xw'') =
     ((new_MintWatcher ''0xw'')\<lparr>isListening := True, timers := [0]\<rparr>, None)"
  by (simp add: startListening_def new_MintWatcher_def setupNetworkWideListener_def Let_def)

lemma listening_watcher_eq:
  "listening_watcher = (new_MintWatcher ''0xw'')\<lparr>isListening := True, timers := [0]\<rparr>"
  by (simp add: listening_watcher_def sample_start)

text \<open>
  Claim C8, as amended. A call of \<^verbatim>\<open>startListening\<close> on a watcher that is listening
  returns without an error (it only warns on the console) and leaves the watcher as it
  was: no listener, no contract handler and no polling loop is added, and nothing is
  delivered.
\<close>

theorem C8_second_start_returns_silently:
  "isListening w \<Longrightarrow> startListening pv fromBlock includeHistorical tokenAddr w = (w, None)"
  by (simp add: startListening_def)

text \<open>The theorem at a second call on the sample watcher, which has one polling loop.\<close>

theorem C8_second_start_witness:
  "isListening listening_watcher
 \<and> startListening sample_provider None True None listening_watcher = (listening_watcher, None)
 \<and> timers (fst (startListening sample_provider None True None listening_watcher)) = [0]"
proof -
  have l: "isListening listening_watcher"
    by (simp add: listening_watcher_eq)
  from C8_second_start_returns_silently[OF l, of sample_provider None True None] l show ?thesis
    by (simp add: listening_watcher_eq)
qed

text \<open>
  The claim as stated fails: the second call on the sample watcher raises nothing, where
  the claim asks for an \<^verbatim>\<open>AlreadyListening\<close> error.
\<close>

theorem C8_no_error_counterexample:
  "isListening listening_watcher
 \<and> snd (startListening sample_provider None True None listening_watcher) = None"
  by (simp add: listening_watcher_eq startListening_def)

lemma poll_tick_appends: "\<exists>live. delivered (poll_tick pv i w) = delivered w @ live"
  by (simp add: poll_tick_def Let_def)

lemma poll_ticks_append:
  "\<exists>live. delivered (fold (\<lambda>tick. poll_tick (fst tick) (snd tick)) ticks w) = delivered w @ live"
proof (induction ticks arbitrary: w)
  case Nil
  show ?case by simp
next
  case (Cons tick ticks)
  obtain l1 where l1: "delivered (poll_tick (fst tick) (snd tick) w) = delivered w @ l1"
    using poll_tick_appends by blast
  obtain l2 where
    "delivered (fold (\<lambda>tick. poll_tick (fst tick) (snd tick)) ticks (poll_tick (fst tick) (snd tick) w))
       = delivered (poll_tick (fst tick) (snd tick) w) @ l2"
    using Cons.IH by blast
  with l1 show ?case by auto
qed

lemma getRecentMints_Inr:
  assumes "getRecentMints pv w br = Inr recent"
  obtains currentBlock where "getBlockNumber pv = Inr currentBlock"
    and "recent = sort_key (\<lambda>m. - blockNumber m)
           (case getLogs pv (max 0 (currentBlock - br)) of
              Inl _ \<Rightarrow> []
            | Inr logs \<Rightarrow> List.map_filter (parse_mint_log pv w) logs)"
  using assms by (cases "getBlockNumber pv") (simp_all add: getRecentMints_def Let_def)

lemma getRecentMints_newest_first:
  assumes "getRecentMints pv w br = Inr recent"
  shows "sorted_wrt (\<lambda>a b. blockNumber a \<ge> blockNumber b) recent"
proof -
  obtain mints where r: "recent = sort_key (\<lambda>m. - blockNumber m) mints"
    using getRecentMints_Inr[OF assms] by metis
  have "sorted (map (\<lambda>m. - blockNumber m) recent)"
    unfolding r by (rule sorted_sort_key)
  then show ?thesis
    by (simp add: sorted_map sorted_wrt_iff_nth_less)
qed

lemma getRecentMints_complete:
  assumes "getRecentMints pv w br = Inr recent"
  shows "\<exists>currentBlock. getBlockNumber pv = Inr currentBlock
         \<and> mset recent =
             mset (case getLogs pv (max 0 (currentBlock - br)) of
                     Inl _ \<Rightarrow> []
                   | Inr logs \<Rightarrow> List.map_filter (parse_mint_log pv w) logs)"
  using getRecentMints_Inr[OF assms] by (metis mset_sort)

text \<open>
  Claim C4, as amended. When \<^verbatim>\<open>startListening\<close> is called with \<^verbatim>\<open>includeHistorical = true\<close>
  and no token on a watcher that is not listening, and the call succeeds, then the
  callback receives the events of \<^verbatim>\<open>getRecentMints\<close>: each log that the history query
  returns and that parses, once, newest first (in non-increasing order of block number).
  The polling loop is registered after the last of these calls, and its runs only add to
  the end of the delivered sequence, so every historical event comes before any live one.
\<close>

theorem C4_historical_newest_first_then_live:
  assumes "\<not> isListening w"
      and "startListening pv fromBlock True None w = (w', None)"
  shows "\<exists>startBlock currentBlock recent.
            startBlock_of pv fromBlock = Inr startBlock
          \<and> getBlockNumber pv = Inr currentBlock
          \<and> mset recent =
              mset (case getLogs pv (max 0 (currentBlock - startBlock)) of
                      Inl _ \<Rightarrow> []
                    | Inr logs \<Rightarrow> List.map_filter (parse_mint_log pv (w\<lparr>isListening := True\<rparr>)) logs)
          \<and> sorted_wrt (\<lambda>a b. blockNumber a \<ge> blockNumber b) recent
          \<and> delivered w' = delivered w @ recent
          \<and> timers w' = timers w @ [0]
          \<and> (\<forall>ticks. \<exists>live.
                delivered (fold (\<lambda>tick. poll_tick (fst tick) (snd tick)) ticks w')
                  = delivered w @ recent @ live)"
proof -
  from assms obtain startBlock recent where
    sb: "startBlock_of pv fromBlock = Inr startBlock" and
    rc: "getRecentMints pv (w\<lparr>isListening := True\<rparr>) startBlock = Inr recent" and
    w': "w' = setupNetworkWideListener (w\<lparr>isListening := True, delivered := delivered w @ recent\<rparr>)"
    unfolding startListening_def by (auto simp: Let_def split: sum.splits)
  have d: "delivered w' = delivered w @ recent" and t: "timers w' = timers w @ [0]"
    unfolding w' setupNetworkWideListener_def by simp_all
  have live: "\<exists>live. delivered (fold (\<lambda>tick. poll_tick (fst tick) (snd tick)) ticks w')
                       = delivered w @ recent @ live" for ticks
    using poll_ticks_append[of ticks w'] d by auto
  from getRecentMints_complete[OF rc] obtain currentBlock where
    "getBlockNumber pv = Inr currentBlock"
    "mset recent =
       mset (case getLogs pv (max 0 (currentBlock - startBlock)) of
               Inl _ \<Rightarrow> []
             | Inr logs \<Rightarrow> List.map_filter (parse_mint_log pv (w\<lparr>isListening := True\<rparr>)) logs)"
    by blast
  with sb d t live getRecentMints_newest_first[OF rc] show ?thesis
    by blast
qed

lemma sample_history:
  "startListening sample_provider None True None (new_MintWatcher ''0xw'') =
     ((new_MintWatcher ''0xw'')
        \<lparr>isListening := True,
         timers := [0],
         delivered :=
           [\<lparr> token = ''0xt2'', mint_to = ''0xw'', amount = ''2'', blockNumber = 4700,
               mint_transactionHash = ''0xh2'', mint_timestamp = 47000, logIndex = 3 \<rparr>,
            \<lparr> token = ''0xt1'', mint_to = ''0xw'', amount = ''1'', blockNumber = 4500,
               mint_transactionHash = ''0xh1'', mint_timestamp = 45000, logIndex = 0 \<rparr>]\<rparr>,
      None)"
  by (simp add: startListening_def new_MintWatcher_def startBlock_of_def sample_provider_def
        getRecentMints_def List.map_filter_def parse_mint_log_def setupNetworkWideListener_def
        timestamp_or_now_def Let_def)

text \<open>
  The theorem at the sample provider, whose history query returns the logs of blocks 4500
  and 4700 in this order: the callback gets block 4700 first, then block 4500, and a
  polling run that finds nothing leaves the sequence as it is.
\<close>

theorem C4_historical_witness:
  "map blockNumber
     (delivered (fst (startListening sample_provider None True None (new_MintWatcher ''0xw''))))
     = [4700, 4500]
 \<and> timers (fst (startListening sample_provider None True None (new_MintWatcher ''0xw''))) = [0]
 \<and> take 2 (map blockNumber
      (delivered (poll_tick sample_provider 0
         (fst (startListening sample_provider None True None (new_MintWatcher ''0xw''))))))
     = [4700, 4500]"
proof -
  have fresh: "\<not> isListening (new_MintWatcher ''0xw'')"
    by (simp add: new_MintWatcher_def)
  have run: "startListening sample_provider None True None (new_MintWatcher ''0xw'') =
               (fst (startListening sample_provider None True None (new_MintWatcher ''0xw'')), None)"
    by (simp add: sample_history)
  from C4_historical_newest_first_then_live[OF fresh run] obtain recent where
    d: "delivered (fst (startListening sample_provider None True None (new_MintWatcher ''0xw'')))
          = delivered (new_MintWatcher ''0xw'') @ recent"
    and t: "timers (fst (startListening sample_provider None True None (new_MintWatcher ''0xw'')))
          = timers (new_MintWatcher ''0xw'') @ [0]"
    and l: "\<And>ticks. \<exists>live.
              delivered (fold (\<lambda>tick. poll_tick (fst tick) (snd tick)) ticks
                (fst (startListening sample_provider None True None (new_MintWatcher ''0xw''))))
                = delivered (new_MintWatcher ''0xw'') @ recent @ live"
    by blast
  have nil: "delivered (new_MintWatcher ''0xw'') = []" "timers (new_MintWatcher ''0xw'') = []"
    by (simp_all add: new_MintWatcher_def)
  have r: "map blockNumber recent = [4700, 4500]"
    using d unfolding nil by (auto simp: sample_history)
  from l[of "[(sample_provider, 0)]"] obtain live where
    "delivered (poll_tick sample_provider 0
       (fst (startListening sample_provider None True None (new_MintWatcher ''0xw''))))
       = recent @ live"
    unfolding nil by auto
  with r d t show ?thesis
    unfolding nil by simp
qed

text \<open>
  The claim as stated fails: the history query of the sample provider returns block 4500
  before block 4700, and the callback receives block 4700 before block 4500, which is not
  a non-decreasing order.
\<close>

theorem C4_order_counterexample:
  "map blockNumber
     (delivered (fst (startListening sample_provider None True None (new_MintWatcher ''0xw''))))
     = [4700, 4500]
 \<and> \<not> sorted (map blockNumber
      (delivered (fst (startListening sample_provider None True None (new_MintWatcher ''0xw'')))))"
  by (simp add: sample_history)

section \<open>The monitoring tick\<close>

subsection \<open>One call of checkLimitOrders\<close>

lemma entry_mutate_order:
  "entry (mutate_order k f a) k' = (if k' = k then map_option f (entry a k) else entry a k')"
  by (auto simp: entry_def mutate_order_def map_of_map_entry split: option.splits)

lemma triggered_mutate_order [simp]:
  "triggered (priceMonitor (mutate_order k f a)) = triggered (priceMonitor a)"
  by (simp add: mutate_order_def)

lemma entry_start:
  "entry (executeLimitOrder_start ch ord p a) k =
     (if k = order_id ord \<and> getPosition (portfolioService a) (order_tokenAddress ord) = None
      then map_option (\<lambda>x. x\<lparr>order_status := Failed, executedAt := Some (now ch)\<rparr>) (entry a k)
      else entry a k)"
  by (auto simp: executeLimitOrder_start_def entry_mutate_order split: option.splits)
     (simp_all add: entry_def)

lemma triggered_start [simp]:
  "triggered (priceMonitor (executeLimitOrder_start ch ord p a)) = triggered (priceMonitor a)"
  by (simp add: executeLimitOrder_start_def split: option.splits)

lemma entry_body:
  "entry (checkLimitOrders_body ch p ord a) k =
     (if k = order_id ord \<and> shouldTrigger ord p then map_option (mark_executed ch) (entry a k)
      else entry a k)"
proof -
  have e: "entry (a\<lparr>priceMonitor := priceMonitor a\<lparr>triggered := tr\<rparr>\<rparr>) k = entry a k" for tr k
    by (simp add: entry_def)
  show ?thesis
    unfolding checkLimitOrders_body_def Let_def
    by (cases "entry a k") (auto simp: entry_mutate_order entry_start e mark_executed_def)
qed

lemma triggered_body:
  "triggered (priceMonitor (checkLimitOrders_body ch p ord a)) =
     triggered (priceMonitor a) @ (if shouldTrigger ord p then [(order_id ord, p)] else [])"
  by (simp add: checkLimitOrders_body_def Let_def)

lemma mark_executed_idem:
  "map_option (mark_executed ch) (map_option (mark_executed ch) x) = map_option (mark_executed ch) x"
  by (cases x) (simp_all add: mark_executed_def)

lemma entry_fold:
  "entry (fold (checkLimitOrders_body ch p) os a) k =
     (if \<exists>ord \<in> set os. order_id ord = k \<and> shouldTrigger ord p
      then map_option (mark_executed ch) (entry a k) else entry a k)"
proof (induction os arbitrary: a)
  case Nil
  show ?case by simp
next
  case (Cons x xs)
  show ?case
    by (simp add: Cons.IH entry_body mark_executed_idem) blast
qed

lemma triggered_fold:
  "triggered (priceMonitor (fold (checkLimitOrders_body ch p) os a)) =
     triggered (priceMonitor a)
       @ map (\<lambda>ord. (order_id ord, p)) (filter (\<lambda>ord. shouldTrigger ord p) os)"
  by (induction os arbitrary: a) (simp_all add: triggered_body)

lemma wf_unique:
  assumes "wf_orders m" "(k, ord) \<in> set (limitOrders m)"
      and "ord' \<in> snd ` set (limitOrders m)" "order_id ord' = k"
  shows "ord' = ord"
proof -
  from assms(3) obtain k' where in': "(k', ord') \<in> set (limitOrders m)"
    by auto
  with assms(1,4) have "k' = k"
    unfolding wf_orders_def by fastforce
  with in' assms(1,2) show ?thesis
    unfolding wf_orders_def by (meson eq_key_imp_eq_value)
qed

lemma selected_fires_iff:
  assumes wf: "wf_orders (priceMonitor a)"
      and inl: "(k, ord) \<in> set (limitOrders (priceMonitor a))"
  shows "(\<exists>x \<in> set (filter (selected T) (map snd (limitOrders (priceMonitor a)))).
            order_id x = k \<and> shouldTrigger x p)
         \<longleftrightarrow> (selected T ord \<and> shouldTrigger ord p)"
proof
  assume "\<exists>x \<in> set (filter (selected T) (map snd (limitOrders (priceMonitor a)))).
            order_id x = k \<and> shouldTrigger x p"
  then obtain x where x: "x \<in> snd ` set (limitOrders (priceMonitor a))" "selected T x"
      "order_id x = k" "shouldTrigger x p"
    by auto
  with wf_unique[OF wf inl x(1) x(3)] show "selected T ord \<and> shouldTrigger ord p"
    by simp
next
  assume "selected T ord \<and> shouldTrigger ord p"
  moreover have "ord \<in> snd ` set (limitOrders (priceMonitor a))"
    using inl by force
  moreover have "order_id ord = k"
    using wf inl unfolding wf_orders_def by fastforce
  ultimately show "\<exists>x \<in> set (filter (selected T) (map snd (limitOrders (priceMonitor a)))).
                     order_id x = k \<and> shouldTrigger x p"
    by auto
qed

lemma entry_checkLimitOrders:
  assumes wf: "wf_orders (priceMonitor a)"
      and inl: "(k, ord) \<in> set (limitOrders (priceMonitor a))"
  shows "entry (checkLimitOrders ch T p a) k =
           (if selected T ord \<and> shouldTrigger ord p then Some (mark_executed ch ord) else Some ord)"
proof -
  have e0: "entry a k = Some ord"
    using wf inl unfolding entry_def wf_orders_def by simp
  show ?thesis
    unfolding checkLimitOrders_def Let_def
    using selected_fires_iff[OF wf inl, of T p]
    by (simp add: entry_fold e0 selected_def[abs_def])
qed

lemma fires_iff:
  assumes wf: "wf_orders (priceMonitor a)"
      and inl: "(k, ord) \<in> set (limitOrders (priceMonitor a))"
  shows "fires ch T p a k \<longleftrightarrow> selected T ord \<and> shouldTrigger ord p"
proof -
  have "fires ch T p a k \<longleftrightarrow>
          (\<exists>x \<in> set (filter (selected T) (map snd (limitOrders (priceMonitor a)))).
              order_id x = k \<and> shouldTrigger x p)"
    unfolding fires_def checkLimitOrders_def Let_def
    by (simp add: triggered_fold selected_def[abs_def] image_iff) blast
  then show ?thesis
    using selected_fires_iff[OF wf inl, of T p] by simp
qed

lemma suspended_body:
  "suspended (checkLimitOrders_body ch p ord a) =
     suspended a @
       (if shouldTrigger ord p \<and> onLimitOrderTriggeredCallback (priceMonitor a)
           \<and> getPosition (portfolioService a) (order_tokenAddress ord) \<noteq> None
        then [(ord, p)] else [])"
  by (auto simp: checkLimitOrders_body_def executeLimitOrder_start_def mutate_order_def Let_def
        split: option.splits)

lemma handler_body:
  "portfolioService (checkLimitOrders_body ch p ord a) = portfolioService a"
  "onLimitOrderTriggeredCallback (priceMonitor (checkLimitOrders_body ch p ord a))
     = onLimitOrderTriggeredCallback (priceMonitor a)"
  by (auto simp: checkLimitOrders_body_def executeLimitOrder_start_def mutate_order_def Let_def
        split: option.splits)

lemma suspended_fold:
  "suspended (fold (checkLimitOrders_body ch p) os a) =
     suspended a @
       map (\<lambda>ord. (ord, p))
         (filter (\<lambda>ord. shouldTrigger ord p \<and> onLimitOrderTriggeredCallback (priceMonitor a)
                    \<and> getPosition (portfolioService a) (order_tokenAddress ord) \<noteq> None) os)"
  by (induction os arbitrary: a) (simp_all add: suspended_body handler_body)

lemma started_iff:
  assumes wf: "wf_orders (priceMonitor a)"
      and inl: "(k, ord) \<in> set (limitOrders (priceMonitor a))"
  shows "(ord, p) \<in> set (started ch T p a) \<longleftrightarrow>
           fires ch T p a k \<and> onLimitOrderTriggeredCallback (priceMonitor a)
         \<and> getPosition (portfolioService a) (order_tokenAddress ord) \<noteq> None"
proof -
  have "ord \<in> snd ` set (limitOrders (priceMonitor a))"
    using inl by force
  then have "(ord, p) \<in> set (started ch T p a) \<longleftrightarrow>
          selected T ord \<and> shouldTrigger ord p \<and> onLimitOrderTriggeredCallback (priceMonitor a)
        \<and> getPosition (portfolioService a) (order_tokenAddress ord) \<noteq> None"
    unfolding started_def checkLimitOrders_def Let_def
    by (auto simp: suspended_fold selected_def[abs_def] image_iff)
  then show ?thesis
    using fires_iff[OF wf inl, of ch T p] by simp
qed

subsection \<open>Orders that createAutoLimitOrders adds\<close>

lemma entry_createLimitOrder:
  assumes "createLimitOrder ch T ty target amt a = Inr (ord, a')"
  shows "entry a' = (entry a)(order_id ord \<mapsto> ord)"
    and "orderType ord = ty" and "targetPricePLS ord = target" and "order_status ord = Pending"
  using assms
  by (auto simp: createLimitOrder_def entry_def addLimitOrder_def addToken_def update_conv' Let_def
           split: option.splits)

lemma auto_order_new_entry:
  assumes "auto_order ch pos ty pc f a = (a', e)"
      and "entry a' k = Some ord'" and "entry a k \<noteq> Some ord'"
  shows "orderType ord' = ty
       \<and> (\<exists>p. pc = Some p
              \<and> targetPricePLS ord' = js_mul (to_double ch) (buyPricePLS pos) (f p))
       \<and> order_status ord' = Pending"
proof (cases pc)
  case None
  with assms show ?thesis
    by (simp add: auto_order_def)
next
  case (Some p)
  show ?thesis
  proof (cases "truthy_num p")
    case False
    with Some assms show ?thesis
      by (simp add: auto_order_def)
  next
    case True
    let ?r = "createLimitOrder ch (tokenAddress pos) ty
                (js_mul (to_double ch) (buyPricePLS pos) (f p)) (Some (amountTokens pos)) a"
    show ?thesis
    proof (cases ?r)
      case (Inl x)
      with Some True assms show ?thesis
        by (simp add: auto_order_def Let_def)
    next
      case (Inr res)
      obtain ord a2 where res: "res = (ord, a2)"
        by (cases res)
      with Inr Some True assms(1) have a': "a' = a2"
        by (simp add: auto_order_def Let_def)
      note c = entry_createLimitOrder[OF Inr[unfolded res]]
      from assms(2,3) have "k = order_id ord \<and> ord' = ord"
        unfolding a' c(1) by (auto split: if_splits)
      with c Some show ?thesis
        by simp
    qed
  qed
qed

lemma createAutoLimitOrders_new_entry:
  assumes "createAutoLimitOrders ch pos a = (a', e)"
      and "entry a' k = Some ord'" and "entry a k \<noteq> Some ord'"
  shows "(orderType ord' = take_profit \<longrightarrow>
            (\<exists>tp. takeProfitPercent (config (sniperEngine a)) = Some tp
                 \<and> targetPricePLS ord' =
                     js_mul (to_double ch) (buyPricePLS pos)
                       (js_add (to_double ch) (Num 1) (js_div (to_double ch) (Num tp) (Num 100)))))
       \<and> (orderType ord' = stop_loss \<longrightarrow>
            (\<exists>sl. stopLossPercent (config (sniperEngine a)) = Some sl
                 \<and> targetPricePLS ord' =
                     js_mul (to_double ch) (buyPricePLS pos)
                       (js_sub (to_double ch) (Num 1) (js_div (to_double ch) (Num sl) (Num 100)))))
       \<and> order_status ord' = Pending"
proof (cases "autoSellEnabled (config (sniperEngine a))")
  case False
  with assms show ?thesis
    by (simp add: createAutoLimitOrders_def Let_def)
next
  case True
  let ?cfg = "config (sniperEngine a)"
  obtain a1 e1 where
    s1: "auto_order ch pos take_profit (takeProfitPercent ?cfg)
           (\<lambda>takeProfit. js_add (to_double ch) (Num 1)
                            (js_div (to_double ch) (Num takeProfit) (Num 100))) a
           = (a1, e1)"
    by fastforce
  show ?thesis
  proof (cases "entry a1 k = Some ord'")
    case True
    from auto_order_new_entry[OF s1 True assms(3)] show ?thesis
      by auto
  next
    case new2: False
    show ?thesis
    proof (cases e1)
      case (Some x)
      with s1 True assms(1) have "a' = a1"
        by (simp add: createAutoLimitOrders_def Let_def)
      with new2 assms(2) show ?thesis
        by simp
    next
      case None
      with s1 True assms(1) have
        s2: "auto_order ch pos stop_loss (stopLossPercent ?cfg)
               (\<lambda>stopLoss. js_sub (to_double ch) (Num 1)
                              (js_div (to_double ch) (Num stopLoss) (Num 100))) a1
               = (a', e)"
        by (simp add: createAutoLimitOrders_def Let_def)
      from auto_order_new_entry[OF s2 assms(2) new2] show ?thesis
        by auto
    qed
  qed
qed

text \<open>
  Claim C5. In a call of \<^verbatim>\<open>checkLimitOrders\<close> for a token with the current price \<open>p\<close>, a
  pending take-profit order on the token with target \<open>t\<close> fires if and only if \<open>p \<ge> t\<close>, a
  pending stop-loss order with target \<open>t\<close> fires if and only if \<open>p \<le> t\<close>, and an order
  that does not fire is left as it was, pending. An order that fires is marked
  \<^verbatim>\<open>executed\<close> with the time of the call, and the registered handler is called for it:
  \<^verbatim>\<open>executeLimitOrder\<close> is started for the order and the price, and is suspended at its
  sell, exactly when the order fires, a handler is registered and the portfolio has a
  position for the token. Every order that
  \<^verbatim>\<open>createAutoLimitOrders\<close> adds for a position is pending and has the target
  \<^verbatim>\<open>buyPrice * (1 + takeProfitPercent / 100)\<close> if it is a take-profit order and
  \<^verbatim>\<open>buyPrice * (1 - stopLossPercent / 100)\<close> if it is a stop-loss order, computed in the
  double arithmetic of the language.
\<close>

theorem C5_orders_fire_at_their_thresholds:
  assumes "wf_orders (priceMonitor a)"
      and "(k, ord) \<in> set (limitOrders (priceMonitor a))"
      and "toLowerCase (order_tokenAddress ord) = toLowerCase T"
      and "order_status ord = Pending"
      and "targetPricePLS ord = Num t"
      and "createAutoLimitOrders ch pos a0 = (a1, e)"
  shows "(orderType ord = take_profit \<longrightarrow> (fires ch T (Num p) a k \<longleftrightarrow> p \<ge> t))
       \<and> (orderType ord = stop_loss \<longrightarrow> (fires ch T (Num p) a k \<longleftrightarrow> p \<le> t))
       \<and> (\<not> fires ch T (Num p) a k \<longrightarrow> entry (checkLimitOrders ch T (Num p) a) k = Some ord)
       \<and> (fires ch T (Num p) a k \<longrightarrow>
            entry (checkLimitOrders ch T (Num p) a) k
              = Some (ord\<lparr>order_status := Executed, executedAt := Some (now ch)\<rparr>))
       \<and> ((ord, Num p) \<in> set (started ch T (Num p) a) \<longleftrightarrow>
            fires ch T (Num p) a k \<and> onLimitOrderTriggeredCallback (priceMonitor a)
          \<and> getPosition (portfolioService a) (order_tokenAddress ord) \<noteq> None)
       \<and> (\<forall>k' ord'. entry a1 k' = Some ord' \<and> entry a0 k' \<noteq> Some ord' \<longrightarrow>
             (orderType ord' = take_profit \<longrightarrow>
                (\<exists>tp. takeProfitPercent (config (sniperEngine a0)) = Some tp
                     \<and> targetPricePLS ord' =
                         js_mul (to_double ch) (buyPricePLS pos)
                           (js_add (to_double ch) (Num 1)
                              (js_div (to_double ch) (Num tp) (Num 100)))))
           \<and> (orderType ord' = stop_loss \<longrightarrow>
                (\<exists>sl. stopLossPercent (config (sniperEngine a0)) = Some sl
                     \<and> targetPricePLS ord' =
                         js_mul (to_double ch) (buyPricePLS pos)
                           (js_sub (to_double ch) (Num 1)
                              (js_div (to_double ch) (Num sl) (Num 100)))))
           \<and> order_status ord' = Pending)"
proof -
  have sel: "selected T ord"
    using assms(3,4) by (simp add: selected_def)
  have f: "fires ch T (Num p) a k \<longleftrightarrow> shouldTrigger ord (Num p)"
    using fires_iff[OF assms(1,2)] sel by simp
  have 1: "orderType ord = take_profit \<longrightarrow> (fires ch T (Num p) a k \<longleftrightarrow> p \<ge> t)"
    using f assms(5) by (simp add: shouldTrigger_def)
  have 2: "orderType ord = stop_loss \<longrightarrow> (fires ch T (Num p) a k \<longleftrightarrow> p \<le> t)"
    using f assms(5) by (simp add: shouldTrigger_def)
  have 3: "\<not> fires ch T (Num p) a k \<longrightarrow> entry (checkLimitOrders ch T (Num p) a) k = Some ord"
    using f entry_checkLimitOrders[OF assms(1,2)] by simp
  have 4: "fires ch T (Num p) a k \<longrightarrow>
            entry (checkLimitOrders ch T (Num p) a) k
              = Some (ord\<lparr>order_status := Executed, executedAt := Some (now ch)\<rparr>)"
    using f sel entry_checkLimitOrders[OF assms(1,2), of ch T "Num p"]
    by (simp add: mark_executed_def)
  note 5 = started_iff[OF assms(1,2), of "Num p" ch T]
  note 6 = createAutoLimitOrders_new_entry[OF assms(6)]
  from 1 2 3 4 5 6 show ?thesis
    by blast
qed

subsection \<open>The sample engine\<close>

lemma lower_0xt: "toLowerCase ''0xt'' = ''0xt''"
  by (simp add: toLowerCase_def toLowerCase_char_def char_of_def bit_Suc_0_iff)

lemma now_digits: "string_of_nat 1700000000000 = ''1700000000000''"
  by (simp add: string_of_nat.simps char_of_def bit_Suc_0_iff)

lemmas sample_states =
  sample_chain_def sample_engine_def new_SniperEngine_def DEFAULT_SNIPER_CONFIG_def
  sample_position_def new_PriceMonitor_def holding_engine_def unarmed_engine_def
  new_AutoSellEngine_def tp_order_def sl_order_def armed_engine_def addPosition_def

lemma armed_orders:
  "limitOrders (priceMonitor (fst (createAutoLimitOrders sample_chain sample_position unarmed_engine)))
     = [(''0xt-take_profit-1700000000000'', tp_order), (''0xt-stop_loss-1700000000000'', sl_order)]"
  apply (simp add: createAutoLimitOrders_def auto_order_def createLimitOrder_def getPosition_def
           Let_def truthy_num_def sample_states lower_0xt)
  apply (simp add: now_digits or_default_def truthy_str_def addLimitOrder_def addToken_def
           set_add_def lower_0xt)
  done

lemma armed_wf: "wf_orders (priceMonitor armed_engine)"
  by (simp add: wf_orders_def armed_engine_def tp_order_def sl_order_def)

lemma armed_tp: "(''0xt-take_profit-1700000000000'', tp_order) \<in> set (limitOrders (priceMonitor armed_engine))"
  by (simp add: armed_engine_def)

lemma armed_sl: "(''0xt-stop_loss-1700000000000'', sl_order) \<in> set (limitOrders (priceMonitor armed_engine))"
  by (simp add: armed_engine_def)

text \<open>
  The theorem at the scenario of the specification: the position bought at 100 with
  \<^verbatim>\<open>takeProfitPercent = 100\<close> and \<^verbatim>\<open>stopLossPercent = 50\<close> gets a take-profit order with
  target 200, which a price of 199 does not fire (the order stays as it was and no sell is
  started) and a price of 200 fires (the order is marked \<^verbatim>\<open>executed\<close> and its sell is
  started); the stop-loss order with target 50 does not fire at 51 and fires at 50 and at
  30, where the take-profit order does not fire.
\<close>

theorem C5_orders_fire_witness:
  "entry (fst (createAutoLimitOrders sample_chain sample_position unarmed_engine))
     ''0xt-take_profit-1700000000000'' = Some tp_order
 \<and> targetPricePLS tp_order = Num 200
 \<and> \<not> fires sample_chain ''0xt'' (Num 199) armed_engine ''0xt-take_profit-1700000000000''
 \<and> entry (checkLimitOrders sample_chain ''0xt'' (Num 199) armed_engine)
      ''0xt-take_profit-1700000000000'' = Some tp_order
 \<and> (tp_order, Num 199) \<notin> set (started sample_chain ''0xt'' (Num 199) armed_engine)
 \<and> fires sample_chain ''0xt'' (Num 200) armed_engine ''0xt-take_profit-1700000000000''
 \<and> entry (checkLimitOrders sample_chain ''0xt'' (Num 200) armed_engine)
      ''0xt-take_profit-1700000000000''
      = Some (tp_order\<lparr>order_status := Executed, executedAt := Some 1700000000000\<rparr>)
 \<and> (tp_order, Num 200) \<in> set (started sample_chain ''0xt'' (Num 200) armed_engine)
 \<and> \<not> fires sample_chain ''0xt'' (Num 51) armed_engine ''0xt-stop_loss-1700000000000''
 \<and> fires sample_chain ''0xt'' (Num 50) armed_engine ''0xt-stop_loss-1700000000000''
 \<and> fires sample_chain ''0xt'' (Num 30) armed_engine ''0xt-stop_loss-1700000000000''
 \<and> \<not> fires sample_chain ''0xt'' (Num 30) armed_engine ''0xt-take_profit-1700000000000''"
proof -
  have created: "createAutoLimitOrders sample_chain sample_position unarmed_engine =
      (fst (createAutoLimitOrders sample_chain sample_position unarmed_engine),
       snd (createAutoLimitOrders sample_chain sample_position unarmed_engine))"
    by simp
  have bought: "buyPricePLS sample_position = Num 100"
    by (simp add: sample_position_def)
  have exact: "to_double sample_chain = Num"
    by (simp add: sample_chain_def)
  have tp: "toLowerCase (order_tokenAddress tp_order) = toLowerCase ''0xt''"
      "order_status tp_order = Pending" "targetPricePLS tp_order = Num 200"
      "orderType tp_order = take_profit"
    by (simp_all add: tp_order_def)
  have sl: "toLowerCase (order_tokenAddress sl_order) = toLowerCase ''0xt''"
      "order_status sl_order = Pending" "targetPricePLS sl_order = Num 50"
      "orderType sl_order = stop_loss"
    by (simp_all add: sl_order_def)
  note take = C5_orders_fire_at_their_thresholds[OF armed_wf armed_tp tp(1,2,3) created]
  note stop = C5_orders_fire_at_their_thresholds[OF armed_wf armed_sl sl(1,2,3) created]
  have new: "entry (fst (createAutoLimitOrders sample_chain sample_position unarmed_engine))
     ''0xt-take_profit-1700000000000'' = Some tp_order"
    by (simp add: entry_def armed_orders)
  have old: "entry unarmed_engine ''0xt-take_profit-1700000000000'' \<noteq> Some tp_order"
    by (simp add: entry_def unarmed_engine_def new_AutoSellEngine_def new_PriceMonitor_def)
  have cfg: "takeProfitPercent (config (sniperEngine unarmed_engine)) = Some 100"
    by (simp add: sample_states)
  from take[of 199] new old cfg tp(4) have target: "targetPricePLS tp_order = Num 200"
    by (auto simp: bought exact)
  have handler: "onLimitOrderTriggeredCallback (priceMonitor armed_engine)"
      "getPosition (portfolioService armed_engine) (order_tokenAddress tp_order) \<noteq> None"
      "now sample_chain = 1700000000000"
    by (simp_all add: sample_states getPosition_def lower_0xt)
  from take[of 199] take[of 200] take[of 30] stop[of 51] stop[of 50] stop[of 30]
    new target tp(4) sl(4) handler
  show ?thesis
    by simp
qed

subsection \<open>A whole tick\<close>

lemma keys_map_entry: "map fst (AList.map_entry k f xs) = map fst xs"
  by (induction xs) auto

lemma set_map_entry:
  "e \<in> set (AList.map_entry k f xs) \<Longrightarrow> e \<in> set xs \<or> (\<exists>x. (k, x) \<in> set xs \<and> e = (k, f x))"
  by (induction xs) (auto split: if_splits)

lemma wf_mutate_order:
  assumes "wf_orders (priceMonitor a)" and "\<And>x. order_id (f x) = order_id x"
  shows "wf_orders (priceMonitor (mutate_order k f a))"
proof -
  have "order_id (snd e) = fst e"
    if "e \<in> set (AList.map_entry k f (limitOrders (priceMonitor a)))" for e
    using set_map_entry[OF that] assms unfolding wf_orders_def by fastforce
  then show ?thesis
    using assms(1) by (simp add: wf_orders_def mutate_order_def keys_map_entry)
qed

lemma wf_start:
  "wf_orders (priceMonitor a) \<Longrightarrow> wf_orders (priceMonitor (executeLimitOrder_start ch ord p a))"
  by (auto simp: executeLimitOrder_start_def wf_orders_def
        intro!: wf_mutate_order[unfolded wf_orders_def] split: option.splits)

lemma wf_body:
  assumes "wf_orders (priceMonitor a)"
  shows "wf_orders (priceMonitor (checkLimitOrders_body ch p ord a))"
proof -
  have w1: "wf_orders (priceMonitor (a\<lparr>priceMonitor := priceMonitor a\<lparr>triggered := tr\<rparr>\<rparr>))" for tr
    using assms by (simp add: wf_orders_def)
  show ?thesis
    unfolding checkLimitOrders_body_def Let_def
    by (auto intro!: wf_mutate_order wf_start w1 assms)
qed

lemma wf_fold_body:
  "wf_orders (priceMonitor a) \<Longrightarrow>
     wf_orders (priceMonitor (fold (checkLimitOrders_body ch p) os a))"
  by (induction os arbitrary: a) (simp_all add: wf_body)

lemma wf_checkPrices_body:
  assumes "wf_orders (priceMonitor a)"
  shows "wf_orders (priceMonitor (checkPrices_body ch x a))"
proof -
  have "wf_orders (priceMonitor (a\<lparr>priceMonitor := priceMonitor a\<lparr>priceCache := pc\<rparr>\<rparr>))" for pc
    using assms by (simp add: wf_orders_def)
  then show ?thesis
    unfolding checkPrices_body_def checkLimitOrders_def Let_def by (intro wf_fold_body)
qed

lemma entry_in_set:
  "entry a k = Some ord \<Longrightarrow> (k, ord) \<in> set (limitOrders (priceMonitor a))"
  unfolding entry_def by (rule map_of_SomeD)

lemma entry_checkPrices_body:
  assumes wf: "wf_orders (priceMonitor a)" and e: "entry a k = Some ord"
  shows "entry (checkPrices_body ch x a) k =
     (if selected x ord \<and> shouldTrigger ord (getPrice ch x) then Some (mark_executed ch ord)
      else Some ord)"
proof -
  let ?a1 = "a\<lparr>priceMonitor := (priceMonitor a)
                  \<lparr>priceCache := (priceCache (priceMonitor a))(toLowerCase x \<mapsto>
                     \<lparr> update_tokenAddress = x, pricePLS = getPrice ch x,
                       update_timestamp = now ch, reserveToken = ''0'', reservePLS = ''0'' \<rparr>)\<rparr>\<rparr>"
  have wf1: "wf_orders (priceMonitor ?a1)"
    using wf by (simp add: wf_orders_def)
  have in1: "(k, ord) \<in> set (limitOrders (priceMonitor ?a1))"
    using entry_in_set[OF e] by simp
  show ?thesis
    unfolding checkPrices_body_def Let_def
    using entry_checkLimitOrders[OF wf1 in1] by simp
qed

lemma new_triggered_checkPrices_body:
  assumes wf: "wf_orders (priceMonitor a)" and e: "entry a k = Some ord"
  shows "\<exists>new. triggered (priceMonitor (checkPrices_body ch x a)) = triggered (priceMonitor a) @ new
            \<and> (\<forall>p. (k, p) \<in> set new \<longleftrightarrow>
                   p = getPrice ch x \<and> selected x ord \<and> shouldTrigger ord (getPrice ch x))"
proof -
  let ?a1 = "a\<lparr>priceMonitor := (priceMonitor a)
                  \<lparr>priceCache := (priceCache (priceMonitor a))(toLowerCase x \<mapsto>
                     \<lparr> update_tokenAddress = x, pricePLS = getPrice ch x,
                       update_timestamp = now ch, reserveToken = ''0'', reservePLS = ''0'' \<rparr>)\<rparr>\<rparr>"
  let ?os = "filter (selected x) (map snd (limitOrders (priceMonitor a)))"
  let ?new = "map (\<lambda>ord. (order_id ord, getPrice ch x))
                (filter (\<lambda>ord. shouldTrigger ord (getPrice ch x)) ?os)"
  have wf1: "wf_orders (priceMonitor ?a1)"
    using wf by (simp add: wf_orders_def)
  have in1: "(k, ord) \<in> set (limitOrders (priceMonitor ?a1))"
    using entry_in_set[OF e] by simp
  have t: "triggered (priceMonitor (checkPrices_body ch x a)) = triggered (priceMonitor a) @ ?new"
    unfolding checkPrices_body_def checkLimitOrders_def Let_def
    by (simp add: triggered_fold selected_def[abs_def])
  have f: "fires ch x (getPrice ch x) ?a1 k \<longleftrightarrow> selected x ord \<and> shouldTrigger ord (getPrice ch x)"
    by (rule fires_iff[OF wf1 in1])
  have f2: "fires ch x (getPrice ch x) ?a1 k \<longleftrightarrow> (k, getPrice ch x) \<in> set ?new"
    unfolding fires_def checkLimitOrders_def Let_def
    by (simp add: triggered_fold selected_def[abs_def])
  have "(k, p) \<in> set ?new \<longleftrightarrow>
          p = getPrice ch x \<and> selected x ord \<and> shouldTrigger ord (getPrice ch x)" for p
    using f f2 by auto
  with t show ?thesis
    by blast
qed

lemma entry_tick:
  assumes "wf_orders (priceMonitor a)" "entry a k = Some ord" "lowercase_tokens ts"
  shows "entry (fold (checkPrices_body ch) ts a) k =
           (if quote_fires ch ord ts then Some (mark_executed ch ord) else Some ord)"
  using assms
proof (induction ts arbitrary: a ord)
  case Nil
  then show ?case
    by (simp add: quote_fires_def)
next
  case (Cons x ts)
  have lx: "toLowerCase x = x" and lts: "lowercase_tokens ts"
    using Cons.prems(3) by (simp_all add: lowercase_tokens_def)
  let ?a1 = "checkPrices_body ch x a"
  have wf1: "wf_orders (priceMonitor ?a1)"
    by (rule wf_checkPrices_body[OF Cons.prems(1)])
  note e1 = entry_checkPrices_body[OF Cons.prems(1,2), of ch x]
  show ?case
  proof (cases "selected x ord \<and> shouldTrigger ord (getPrice ch x)")
    case True
    then have e: "entry ?a1 k = Some (mark_executed ch ord)"
      using e1 by simp
    have "\<not> quote_fires ch (mark_executed ch ord) ts"
      by (simp add: quote_fires_def mark_executed_def)
    moreover have "quote_fires ch ord (x # ts)"
      using True lx by (auto simp: quote_fires_def selected_def)
    ultimately show ?thesis
      using Cons.IH[OF wf1 e lts] by simp
  next
    case False
    then have e: "entry ?a1 k = Some ord"
      using e1 by auto
    have "quote_fires ch ord (x # ts) \<longleftrightarrow> quote_fires ch ord ts"
      using False lx by (auto simp: quote_fires_def selected_def)
    then show ?thesis
      using Cons.IH[OF wf1 e lts] by simp
  qed
qed

lemma triggered_tick:
  assumes "wf_orders (priceMonitor a)" "entry a k = Some ord" "lowercase_tokens ts"
  shows "\<exists>new. triggered (priceMonitor (fold (checkPrices_body ch) ts a))
                  = triggered (priceMonitor a) @ new
           \<and> (\<forall>p. (k, p) \<in> set new \<longleftrightarrow>
                  quote_fires ch ord ts \<and> p = getPrice ch (toLowerCase (order_tokenAddress ord)))"
  using assms
proof (induction ts arbitrary: a ord)
  case Nil
  then show ?case
    by (simp add: quote_fires_def)
next
  case (Cons x ts)
  have lx: "toLowerCase x = x" and lts: "lowercase_tokens ts"
    using Cons.prems(3) by (simp_all add: lowercase_tokens_def)
  let ?a1 = "checkPrices_body ch x a"
  let ?T = "toLowerCase (order_tokenAddress ord)"
  have wf1: "wf_orders (priceMonitor ?a1)"
    by (rule wf_checkPrices_body[OF Cons.prems(1)])
  note e1 = entry_checkPrices_body[OF Cons.prems(1,2), of ch x]
  obtain new1 where n1: "triggered (priceMonitor ?a1) = triggered (priceMonitor a) @ new1"
    and m1: "\<And>p. (k, p) \<in> set new1 \<longleftrightarrow>
                  p = getPrice ch x \<and> selected x ord \<and> shouldTrigger ord (getPrice ch x)"
    using new_triggered_checkPrices_body[OF Cons.prems(1,2), of ch x] by blast
  show ?case
  proof (cases "selected x ord \<and> shouldTrigger ord (getPrice ch x)")
    case True
    then have e: "entry ?a1 k = Some (mark_executed ch ord)"
      using e1 by simp
    have nq: "\<not> quote_fires ch (mark_executed ch ord) ts"
      by (simp add: quote_fires_def mark_executed_def)
    have q: "quote_fires ch ord (x # ts)" and xT: "x = ?T"
      using True lx by (auto simp: quote_fires_def selected_def)
    obtain new2 where
      n2: "triggered (priceMonitor (fold (checkPrices_body ch) ts ?a1))
             = triggered (priceMonitor ?a1) @ new2"
      and m2: "\<And>p. (k, p) \<notin> set new2"
      using Cons.IH[OF wf1 e lts] nq by auto
    have "triggered (priceMonitor (fold (checkPrices_body ch) (x # ts) a))
            = triggered (priceMonitor a) @ (new1 @ new2)"
      using n1 n2 by simp
    moreover have "(k, p) \<in> set (new1 @ new2) \<longleftrightarrow>
                     quote_fires ch ord (x # ts) \<and> p = getPrice ch ?T" for p
      using m1[of p] m2[of p] q True xT by auto
    ultimately show ?thesis
      by blast
  next
    case False
    then have e: "entry ?a1 k = Some ord"
      using e1 by auto
    have qq: "quote_fires ch ord (x # ts) \<longleftrightarrow> quote_fires ch ord ts"
      using False lx by (auto simp: quote_fires_def selected_def)
    obtain new2 where
      n2: "triggered (priceMonitor (fold (checkPrices_body ch) ts ?a1))
             = triggered (priceMonitor ?a1) @ new2"
      and m2: "\<And>p. (k, p) \<in> set new2 \<longleftrightarrow> quote_fires ch ord ts \<and> p = getPrice ch ?T"
      using Cons.IH[OF wf1 e lts] by auto
    have "triggered (priceMonitor (fold (checkPrices_body ch) (x # ts) a))
            = triggered (priceMonitor a) @ (new1 @ new2)"
      using n1 n2 by simp
    moreover have "(k, p) \<in> set (new1 @ new2) \<longleftrightarrow>
                     quote_fires ch ord (x # ts) \<and> p = getPrice ch ?T" for p
      using m1[of p] m2[of p] qq False by auto
    ultimately show ?thesis
      by blast
  qed
qed

lemma getPrice_of_failed_quote: "quote_fails ch x \<Longrightarrow> getPrice ch x = Num 0"
  unfolding quote_fails_def getPrice_def by (auto split: sum.splits option.splits)

text \<open>
  Claim C10. \<^verbatim>\<open>getPrice\<close> returns for every token and never raises; when a request of
  the quote fails it returns \<^verbatim>\<open>'0'\<close>. So in a tick (\<^verbatim>\<open>checkPrices\<close>) in which the quote
  for a monitored token fails, a pending stop-loss order on that token with a target
  \<open>t \<ge> 0\<close> fires at the price 0 and is marked as \<^verbatim>\<open>checkLimitOrders\<close> marks a fired
  order, and a pending take-profit order on that token with a target \<open>t > 0\<close> does not
  fire and stays as it was.
\<close>

theorem C10_failed_quote_fires_stop_loss:
  assumes "wf_orders (priceMonitor a)"
      and "lowercase_tokens (monitoredTokens (priceMonitor a))"
      and "(k, ord) \<in> set (limitOrders (priceMonitor a))"
      and "order_status ord = Pending"
      and "toLowerCase (order_tokenAddress ord) \<in> set (monitoredTokens (priceMonitor a))"
      and "quote_fails ch (toLowerCase (order_tokenAddress ord))"
      and "targetPricePLS ord = Num t"
  shows "(quote_fails ch x \<longrightarrow> getPrice ch x = Num 0)
       \<and> (orderType ord = stop_loss \<and> 0 \<le> t \<longrightarrow>
            (k, Num 0) \<in> set (tick_triggered ch a)
          \<and> entry (checkPrices ch a) k = Some (mark_executed ch ord))
       \<and> (orderType ord = take_profit \<and> 0 < t \<longrightarrow>
            k \<notin> fst ` set (tick_triggered ch a)
          \<and> entry (checkPrices ch a) k = Some ord)"
proof -
  let ?ts = "monitoredTokens (priceMonitor a)"
  have e: "entry a k = Some ord"
    using assms(1,3) unfolding entry_def wf_orders_def by simp
  have p0: "getPrice ch (toLowerCase (order_tokenAddress ord)) = Num 0"
    by (rule getPrice_of_failed_quote[OF assms(6)])
  have q: "quote_fires ch ord ?ts \<longleftrightarrow> shouldTrigger ord (Num 0)"
    using assms(4,5) p0 by (simp add: quote_fires_def)
  obtain new where n: "triggered (priceMonitor (checkPrices ch a)) = triggered (priceMonitor a) @ new"
    and m: "\<And>p. (k, p) \<in> set new \<longleftrightarrow> quote_fires ch ord ?ts \<and> p = Num 0"
    using triggered_tick[OF assms(1) e assms(2), of ch] unfolding checkPrices_def p0 by blast
  have tt: "tick_triggered ch a = new"
    unfolding tick_triggered_def n by simp
  have en: "entry (checkPrices ch a) k =
              (if quote_fires ch ord ?ts then Some (mark_executed ch ord) else Some ord)"
    unfolding checkPrices_def by (rule entry_tick[OF assms(1) e assms(2)])
  have sl: "orderType ord = stop_loss \<and> 0 \<le> t \<longrightarrow>
            (k, Num 0) \<in> set (tick_triggered ch a)
          \<and> entry (checkPrices ch a) k = Some (mark_executed ch ord)"
  proof (intro impI)
    assume "orderType ord = stop_loss \<and> 0 \<le> t"
    then have "shouldTrigger ord (Num 0)"
      using assms(7) by (simp add: shouldTrigger_def)
    then have "quote_fires ch ord ?ts"
      using q by simp
    then show "(k, Num 0) \<in> set (tick_triggered ch a)
          \<and> entry (checkPrices ch a) k = Some (mark_executed ch ord)"
      using m[of "Num 0"] en unfolding tt by simp
  qed
  have tp: "orderType ord = take_profit \<and> 0 < t \<longrightarrow>
            k \<notin> fst ` set (tick_triggered ch a)
          \<and> entry (checkPrices ch a) k = Some ord"
  proof (intro impI)
    assume "orderType ord = take_profit \<and> 0 < t"
    then have "\<not> shouldTrigger ord (Num 0)"
      using assms(7) by (simp add: shouldTrigger_def)
    then have nq: "\<not> quote_fires ch ord ?ts"
      using q by simp
    then have "(k, p) \<notin> set new" for p
      using m[of p] by simp
    then have "k \<notin> fst ` set new"
      by force
    then show "k \<notin> fst ` set (tick_triggered ch a)
          \<and> entry (checkPrices ch a) k = Some ord"
      using nq en unfolding tt by simp
  qed
  from sl tp getPrice_of_failed_quote[of ch x] show ?thesis
    by blast
qed

text \<open>
  The theorem at the sample engine with its two orders, on a chain where the router's
  quote raises.
\<close>

theorem C10_failed_quote_witness:
  "getPrice quoteless_chain ''0xt'' = Num 0
 \<and> (''0xt-stop_loss-1700000000000'', Num 0) \<in> set (tick_triggered quoteless_chain armed_engine)
 \<and> map_option order_status (entry (checkPrices quoteless_chain armed_engine) ''0xt-stop_loss-1700000000000'')
      = Some Executed
 \<and> ''0xt-take_profit-1700000000000'' \<notin> fst ` set (tick_triggered quoteless_chain armed_engine)
 \<and> entry (checkPrices quoteless_chain armed_engine) ''0xt-take_profit-1700000000000'' = Some tp_order"
proof -
  have low: "lowercase_tokens (monitoredTokens (priceMonitor armed_engine))"
    by (simp add: lowercase_tokens_def armed_engine_def lower_0xt)
  have fails: "quote_fails quoteless_chain ''0xt''"
    by (simp add: quote_fails_def quoteless_chain_def sample_chain_def)
  have tp: "order_status tp_order = Pending" "targetPricePLS tp_order = Num 200"
      "orderType tp_order = take_profit" "toLowerCase (order_tokenAddress tp_order) = ''0xt''"
    by (simp_all add: tp_order_def lower_0xt)
  have sl: "order_status sl_order = Pending" "targetPricePLS sl_order = Num 50"
      "orderType sl_order = stop_loss" "toLowerCase (order_tokenAddress sl_order) = ''0xt''"
    by (simp_all add: sl_order_def lower_0xt)
  have mon: "''0xt'' \<in> set (monitoredTokens (priceMonitor armed_engine))"
    by (simp add: armed_engine_def)
  note take = C10_failed_quote_fires_stop_loss[OF armed_wf low armed_tp tp(1) mon[folded tp(4)] fails[folded tp(4)] tp(2), of "''0xt''"]
  note stop = C10_failed_quote_fires_stop_loss[OF armed_wf low armed_sl sl(1) mon[folded sl(4)] fails[folded sl(4)] sl(2), of "''0xt''"]
  from take stop fails tp(3) sl(3) show ?thesis
    by (simp add: mark_executed_def)
qed

section \<open>A fired order and its sell\<close>

text \<open>
  Claim C1, evaluated. The sample engine holds the token and has a pending take-profit
  order with target 200. After \<^verbatim>\<open>checkLimitOrders\<close> at the price 200 the order is
  \<^verbatim>\<open>executed\<close> and has no transaction hash, while \<^verbatim>\<open>executeLimitOrder\<close> is still suspended
  at the call of \<^verbatim>\<open>sellToken\<close> (nothing has been sent) and the position is \<^verbatim>\<open>holding\<close>.
  When the portfolio has no position for the token, the handler marks the order
  \<^verbatim>\<open>failed\<close> without attempting a sell, and \<^verbatim>\<open>checkLimitOrders\<close> then marks it \<^verbatim>\<open>executed\<close>.
\<close>

theorem C1_order_executed_before_sell:
  "map_option order_status (entry fired_engine ''0xt-take_profit-1700000000000'') = Some Executed
 \<and> map_option transactionHash (entry fired_engine ''0xt-take_profit-1700000000000'') = Some None
 \<and> suspended fired_engine = [(tp_order, Num 200)]
 \<and> map_option status (getPosition (portfolioService fired_engine) ''0xt'') = Some Holding
 \<and> map_option order_status
      (entry (checkLimitOrders sample_chain ''0xt'' (Num 200) orphaned_engine)
         ''0xt-take_profit-1700000000000'') = Some Executed
 \<and> suspended (checkLimitOrders sample_chain ''0xt'' (Num 200) orphaned_engine) = []"
  by (simp add: fired_engine_def orphaned_engine_def checkLimitOrders_def checkLimitOrders_body_def shouldTrigger_def
        executeLimitOrder_start_def mutate_order_def getPosition_def entry_def sample_states
        lower_0xt Let_def)

lemma fired_engine_eq:
  "fired_engine =
     \<lparr> sniperEngine = holding_engine,
       priceMonitor =
         \<lparr> monitoredTokens = [''0xt''], priceCache = (\<lambda>_. None),
           limitOrders =
             [(''0xt-take_profit-1700000000000'',
               tp_order\<lparr>order_status := Executed, executedAt := Some 1700000000000\<rparr>),
              (''0xt-stop_loss-1700000000000'', sl_order)],
           monitor_isRunning = False, onLimitOrderTriggeredCallback = True,
           triggered = [(''0xt-take_profit-1700000000000'', Num 200)] \<rparr>,
       portfolioService = [''0xt'' \<mapsto> sample_position],
       autoSell_isRunning = False,
       suspended = [(tp_order, Num 200)] \<rparr>"
  by (simp add: fired_engine_def checkLimitOrders_def checkLimitOrders_body_def shouldTrigger_def
        executeLimitOrder_start_def mutate_order_def getPosition_def armed_engine_def
        unarmed_engine_def new_AutoSellEngine_def new_PriceMonitor_def addPosition_def
        tp_order_def sl_order_def sample_position_def sample_chain_def lower_0xt Let_def)

lemma resume_of_failed_sell:
  "executeLimitOrder_resume ch (ord, p) a =
     mutate_order (order_id ord)
       (\<lambda>x. x\<lparr>order_status := Failed, executedAt := Some (now ch)\<rparr>)
       (a\<lparr>suspended := remove1 (ord, p) (suspended a)\<rparr>)"
proof -
  obtain e where
    "sellToken ch (sniperEngine a) (order_tokenAddress ord) (Some (order_amountTokens ord))
       = (sniperEngine a, Inl e)"
    using sellToken_raises by blast
  then show ?thesis
    by (simp add: executeLimitOrder_resume_def Let_def)
qed

lemma settled_order_is_terminal:
  assumes "wf_orders (priceMonitor a)" and "entry a k = Some y" and "order_status y \<noteq> Pending"
  shows "\<not> fires ch T p a k" and "entry (checkLimitOrders ch T p a) k = Some y"
  using fires_iff[OF assms(1) entry_in_set[OF assms(2)], of ch T p]
    entry_checkLimitOrders[OF assms(1) entry_in_set[OF assms(2)], of ch T p] assms(3)
  by (simp_all add: selected_def)

text \<open>
  Claim C3. Every sell attempt of a fired order fails: \<^verbatim>\<open>sellToken\<close> raises at the latest
  in the approval step of the swap service, before a transaction is sent (so there is no
  receipt that could report a failure). When the suspended \<^verbatim>\<open>executeLimitOrder\<close> continues,
  its \<^verbatim>\<open>catch\<close> marks the order \<^verbatim>\<open>failed\<close>, and the positions of the portfolio and of
  the sniper engine are as they were, so a position that was \<^verbatim>\<open>holding\<close> is \<^verbatim>\<open>holding\<close>.
  The order is not tried again: the call is no longer suspended, and no later call of
  \<^verbatim>\<open>checkLimitOrders\<close>, for any token and price, fires the order or changes it.
\<close>

theorem C3_failed_sell_marks_order_failed:
  assumes "wf_orders (priceMonitor a)"
      and "entry a (order_id ord) = Some x"
  shows
  "(\<exists>e. sellToken ch (sniperEngine a) (order_tokenAddress ord) (Some (order_amountTokens ord))
          = (sniperEngine a, Inl e))
 \<and> entry (executeLimitOrder_resume ch (ord, p) a) (order_id ord)
      = Some (x\<lparr>order_status := Failed, executedAt := Some (now ch)\<rparr>)
 \<and> portfolioService (executeLimitOrder_resume ch (ord, p) a) = portfolioService a
 \<and> sniperEngine (executeLimitOrder_resume ch (ord, p) a) = sniperEngine a
 \<and> suspended (executeLimitOrder_resume ch (ord, p) a) = remove1 (ord, p) (suspended a)
 \<and> \<not> fires ch' T p' (executeLimitOrder_resume ch (ord, p) a) (order_id ord)
 \<and> entry (checkLimitOrders ch' T p' (executeLimitOrder_resume ch (ord, p) a)) (order_id ord)
      = Some (x\<lparr>order_status := Failed, executedAt := Some (now ch)\<rparr>)"
proof -
  let ?a0 = "a\<lparr>suspended := remove1 (ord, p) (suspended a)\<rparr>"
  let ?r = "executeLimitOrder_resume ch (ord, p) a"
  let ?y = "x\<lparr>order_status := Failed, executedAt := Some (now ch)\<rparr>"
  have wf0: "wf_orders (priceMonitor ?a0)"
    using assms(1) by simp
  have wf: "wf_orders (priceMonitor ?r)"
    unfolding resume_of_failed_sell by (rule wf_mutate_order[OF wf0]) simp
  have e0: "entry ?a0 (order_id ord) = Some x"
    using assms(2) by (simp add: entry_def)
  have e: "entry ?r (order_id ord) = Some ?y"
    unfolding resume_of_failed_sell by (simp add: entry_mutate_order e0)
  have keeps: "portfolioService ?r = portfolioService a" "sniperEngine ?r = sniperEngine a"
      "suspended ?r = remove1 (ord, p) (suspended a)"
    unfolding resume_of_failed_sell by (simp_all add: mutate_order_def)
  have st: "order_status ?y \<noteq> Pending"
    by simp
  note terminal = settled_order_is_terminal[OF wf e st, of ch' T p']
  from sellToken_raises[of ch "sniperEngine a" "order_tokenAddress ord" "Some (order_amountTokens ord)"]
    e keeps terminal
  show ?thesis
    by blast
qed

lemma tp_order_fields:
  "order_id tp_order = ''0xt-take_profit-1700000000000''"
  "order_tokenAddress tp_order = ''0xt''"
  "order_amountTokens tp_order = ''5''"
  by (simp_all add: tp_order_def)

text \<open>
  The theorem at the fired take-profit order of the sample engine, when its sell continues
  on the chain where every request succeeds: the order, which the tick had marked
  \<^verbatim>\<open>executed\<close>, is \<^verbatim>\<open>failed\<close>, the position is \<^verbatim>\<open>holding\<close> in the portfolio and in the
  sniper engine, and a further call at the price 200 does not fire the order.
\<close>

theorem C3_failed_sell_witness:
  "map_option order_status (entry fired_engine ''0xt-take_profit-1700000000000'') = Some Executed
 \<and> map_option order_status (entry resumed_engine ''0xt-take_profit-1700000000000'') = Some Failed
 \<and> map_option status (getPosition (portfolioService resumed_engine) ''0xt'') = Some Holding
 \<and> map_option status (positions (sniperEngine resumed_engine) ''0xt'') = Some Holding
 \<and> \<not> fires sample_chain ''0xt'' (Num 200) resumed_engine ''0xt-take_profit-1700000000000''
 \<and> map_option order_status
      (entry (checkLimitOrders sample_chain ''0xt'' (Num 200) resumed_engine)
         ''0xt-take_profit-1700000000000'') = Some Failed
 \<and> suspended resumed_engine = []"
proof -
  have wf: "wf_orders (priceMonitor fired_engine)"
    by (simp add: fired_engine_eq wf_orders_def tp_order_def sl_order_def)
  have e: "entry fired_engine (order_id tp_order)
             = Some (tp_order\<lparr>order_status := Executed, executedAt := Some 1700000000000\<rparr>)"
    by (simp add: fired_engine_eq entry_def tp_order_fields)
  have held: "map_option status (getPosition (portfolioService fired_engine) ''0xt'') = Some Holding"
      "map_option status (positions (sniperEngine fired_engine) ''0xt'') = Some Holding"
    by (simp_all add: fired_engine_eq getPosition_def holding_engine_def sample_position_def
          lower_0xt)
  have pending: "suspended fired_engine = [(tp_order, Num 200)]"
    by (simp add: fired_engine_eq)
  from C3_failed_sell_marks_order_failed
         [OF wf e, of sample_chain "Num 200" sample_chain "''0xt''" "Num 200"] e held pending
  show ?thesis
    by (simp add: resumed_engine_def tp_order_fields)
qed

end
